theory Spec2Isabelle
  imports Complex_Main "HOL-Library.AList"
begin

section \<open>The mock data interceptor of the trading dashboard demo\<close>

text \<open>
  The development embeds \<^verbatim>\<open>src/mock-data.js\<close>. JavaScript numbers are modelled as
  mathematical reals (integers where the source only produces integers), so
  \<^verbatim>\<open>Math.round(x)\<close> is \<open>\<lfloor>x + 1/2\<rfloor>\<close> and no binary rounding error appears.
  The results of the successive calls of \<^verbatim>\<open>Math.random()\<close> are a sequence
  \<open>rs :: nat \<Rightarrow> real\<close>; every function that draws takes the position \<open>k\<close> of the next
  draw and returns the position after its last draw, in the order in which the source
  evaluates the calls. The load time \<^verbatim>\<open>NOW\<close> is a parameter \<open>now\<close> (milliseconds), and an
  ISO time string is represented by the instant it denotes.
\<close>

subsection \<open>Helpers\<close>

type_synonym rng = "nat \<Rightarrow> real"

definition DAY_MS :: int where
  "DAY_MS = 86400000"

definition HOUR_MS :: int where
  "HOUR_MS = 3600000"

definition isoAgo :: "int \<Rightarrow> int \<Rightarrow> int" where
  "isoAgo now ms = now - ms"

definition rand :: "real \<Rightarrow> real \<Rightarrow> real \<Rightarrow> real" where
  \<comment> \<open>\<^verbatim>\<open>Math.random() * (max - min) + min\<close>, the draw being \<open>u\<close>\<close>
  "rand mn mx u = u * (mx - mn) + mn"

definition randInt :: "int \<Rightarrow> int \<Rightarrow> real \<Rightarrow> int" where
  "randInt mn mx u = \<lfloor>rand (of_int mn) (of_int (mx + 1)) u\<rfloor>"

definition pick :: "'a list \<Rightarrow> real \<Rightarrow> 'a" where
  "pick arr u = arr ! nat (randInt 0 (int (length arr) - 1) u)"

definition round2 :: "real \<Rightarrow> real" where
  "round2 n = of_int \<lfloor>n * 100 + 1 / 2\<rfloor> / 100"

definition round4 :: "real \<Rightarrow> real" where
  "round4 n = of_int \<lfloor>n * 10000 + 1 / 2\<rfloor> / 10000"

subsection \<open>Constants\<close>

definition CRYPTO_SYMBOLS :: "string list" where
  "CRYPTO_SYMBOLS = [''BTC'', ''ETH'', ''SOL'', ''DOGE'', ''SUI'', ''LINK'', ''SEI'']"

definition STOCK_SYMBOLS :: "string list" where
  "STOCK_SYMBOLS = [''AAPL'', ''TSLA'', ''NVDA'', ''MSFT'', ''AMZN'', ''META'', ''GOOG'']"

definition SIDES :: "string list" where
  "SIDES = [''LONG'', ''SHORT'']"

definition SETUP_TYPES :: "string list" where
  "SETUP_TYPES = [''Breakout'', ''Reversal'', ''Continuation'', ''Mean Reversion'']"

definition REGIMES :: "string list" where
  "REGIMES = [''Growth'', ''Expansion'', ''Neutral'', ''Contraction'', ''Recession'']"

definition ENTRY_REASONS :: "string list" where
  "ENTRY_REASONS =
    [''Multi-factor confluence detected'',
     ''Strong momentum breakout confirmed'',
     ''Mean reversion signal at key level'',
     ''Trend continuation after pullback'',
     ''Volume surge with price confirmation'',
     ''Key support bounce with divergence'',
     ''Resistance break with follow-through'',
     ''Oversold bounce in uptrend context'']"

definition CRYPTO_PRICES :: "string \<rightharpoonup> real" where
  "CRYPTO_PRICES = map_of
    [(''BTC'', 97250.00), (''ETH'', 3420.50), (''SOL'', 198.30), (''DOGE'', 0.3245),
     (''SUI'', 4.12), (''LINK'', 24.80), (''SEI'', 0.7850)]"

definition STOCK_PRICES_entries :: "(string \<times> real) list" where
  "STOCK_PRICES_entries =
    [(''AAPL'', 245.30), (''TSLA'', 412.80), (''NVDA'', 890.50), (''MSFT'', 478.20),
     (''AMZN'', 225.60), (''META'', 612.40), (''GOOG'', 192.70)]"

definition STOCK_PRICES :: "string \<rightharpoonup> real" where
  "STOCK_PRICES = map_of STOCK_PRICES_entries"

subsection \<open>Trade generator\<close>

record trade =
  trade_id :: string
  symbol :: string
  side :: string
  entry_price :: real
  exit_price :: "real option"
  current_price :: real
  pnl_usd :: real
  pnl_percent :: real
  r_multiple :: real
  entry_time :: int
  exit_time :: "int option"
  status :: string
  quantity :: real
  leverage :: real
  stop_loss :: real
  take_profit :: real
  fee_usd :: real
  regime :: string
  trinity_score :: int
  setup_type :: string
  confidence :: real
  entry_reason :: string

text \<open>\<^verbatim>\<open>String(n)\<close> for a natural number, and \<^verbatim>\<open>padStart(w, '0')\<close>.\<close>

fun decimal :: "nat \<Rightarrow> string" where
  "decimal n =
     (if n < 10 then [char_of (48 + n)] else decimal (n div 10) @ [char_of (48 + n mod 10)])"

definition padStart :: "nat \<Rightarrow> char \<Rightarrow> string \<Rightarrow> string" where
  "padStart w c s = replicate (w - length s) c @ s"

definition openCount :: "string \<Rightarrow> nat" where
  \<comment> \<open>3 open crypto, 2 open hip3\<close>
  "openCount prefix = (if prefix = ''C'' then 3 else 2)"

text \<open>
  The body of the loop of \<^verbatim>\<open>generateTrades\<close> for index \<open>i\<close>, the next draw being at
  position \<open>k\<close>. The positions \<open>k1\<close> ... \<open>k4\<close> follow the draws that the source makes only
  on some paths: the symbol of a closed trade, the size of a winning R-multiple, the exit
  time of a closed trade and the current price of an open one. A symbol that the price map
  lacks gives \<^verbatim>\<open>NaN\<close> prices in the source; the model leaves them unspecified (both call
  sites pass a catalogue together with its own prices). The result is the trade and the
  position of the next draw.
\<close>

definition generateTrades_body ::
  "rng \<Rightarrow> int \<Rightarrow> string list \<Rightarrow> (string \<rightharpoonup> real) \<Rightarrow> real \<Rightarrow> string \<Rightarrow> nat \<Rightarrow> nat
    \<Rightarrow> trade \<times> nat" where
  "generateTrades_body rs now symbols priceMap lev prefix i k =
     (let isOpen = (i < openCount prefix);
          smb = (if isOpen then symbols ! (i mod length symbols) else pick symbols (rs k));
          k1 = (if isOpen then k else Suc k);
          side = pick SIDES (rs k1);
          basePrice = the (priceMap smb);
          volatility = (if smb = ''BTC'' then 0.04 else if smb = ''ETH'' then 0.06
                        else if smb = ''DOGE'' then 0.12 else 0.08);
          entryOffset = rand (- volatility) volatility (rs (k1 + 1));
          entryPrice = round4 (basePrice * (1 + entryOffset));
          rRoll = rs (k1 + 2);
          rMult = (if rRoll < 0.35 then - 1
                   else if rRoll < 0.55 then round2 (rand 0.5 1.5 (rs (k1 + 3)))
                   else if rRoll < 0.75 then round2 (rand 1.5 2.5 (rs (k1 + 3)))
                   else if rRoll < 0.90 then round2 (rand 2.5 3.5 (rs (k1 + 3)))
                   else round2 (rand 3.5 5.0 (rs (k1 + 3))));
          k2 = (if rRoll < 0.35 then k1 + 3 else k1 + 4);
          riskPercent = 0.01;
          slDistance = basePrice * riskPercent * (if lev \<ge> 10 then 1 else 2);
          slPrice = (if side = ''LONG'' then round4 (entryPrice - slDistance)
                     else round4 (entryPrice + slDistance));
          tpDistance = slDistance * rand 2.0 4.0 (rs k2);
          tpPrice = (if side = ''LONG'' then round4 (entryPrice + tpDistance)
                     else round4 (entryPrice - tpDistance));
          pnlPercent = rMult * riskPercent * lev * 100;
          notional = rand 2000 5000 (rs (k2 + 1));
          quantity = round4 (notional / entryPrice);
          pnlUsd = round2 (notional * pnlPercent / 100);
          feeUsd = round2 (notional * 0.00035 * 2);
          exitPrice = (if side = ''LONG'' then round4 (entryPrice * (1 + rMult * riskPercent))
                       else round4 (entryPrice * (1 - rMult * riskPercent)));
          entryTs = now - randInt 1 45 (rs (k2 + 2)) * DAY_MS - randInt 0 23 (rs (k2 + 3)) * HOUR_MS;
          exitTs = (if isOpen then None else Some (entryTs + randInt 1 48 (rs (k2 + 4)) * HOUR_MS));
          k3 = (if isOpen then k2 + 4 else k2 + 5);
          currentPrice = (if isOpen
             then round4 (entryPrice * (1 + rand (- 0.02) 0.03 (rs k3) * (if side = ''LONG'' then 1 else - 1)))
             else exitPrice);
          k4 = (if isOpen then Suc k3 else k3);
          currentPnl = (if isOpen
             then round2 ((if side = ''LONG'' then currentPrice - entryPrice
                           else entryPrice - currentPrice) * quantity * lev)
             else pnlUsd)
      in (\<lparr>trade_id = prefix @ ''-'' @ padStart 4 (CHR ''0'') (decimal (i + 1)),
           symbol = smb,
           side = side,
           entry_price = entryPrice,
           exit_price = (if isOpen then None else Some exitPrice),
           current_price = currentPrice,
           pnl_usd = (if isOpen then currentPnl else pnlUsd),
           pnl_percent = (if isOpen then round2 (currentPnl / notional * 100) else round2 pnlPercent),
           r_multiple = (if isOpen then round2 (currentPnl / (notional * riskPercent)) else rMult),
           entry_time = entryTs,
           exit_time = exitTs,
           status = (if isOpen then ''open'' else ''closed''),
           quantity = quantity,
           leverage = lev,
           stop_loss = slPrice,
           take_profit = tpPrice,
           fee_usd = (if isOpen then round2 (feeUsd / 2) else feeUsd),
           regime = pick REGIMES (rs k4),
           trinity_score = randInt 60 95 (rs (k4 + 1)),
           setup_type = pick SETUP_TYPES (rs (k4 + 2)),
           confidence = round2 (rand 0.60 0.95 (rs (k4 + 3))),
           entry_reason = pick ENTRY_REASONS (rs (k4 + 4))\<rparr>,
          k4 + 5))"

definition generateTrades_step ::
  "rng \<Rightarrow> int \<Rightarrow> string list \<Rightarrow> (string \<rightharpoonup> real) \<Rightarrow> real \<Rightarrow> string \<Rightarrow> trade list \<times> nat \<Rightarrow> nat
    \<Rightarrow> trade list \<times> nat" where
  "generateTrades_step rs now symbols priceMap lev prefix st i =
     (case st of (trades, k) \<Rightarrow>
        (case generateTrades_body rs now symbols priceMap lev prefix i k
         of (t, k') \<Rightarrow> (trades @ [t], k')))"

text \<open>
  \<^verbatim>\<open>Array.prototype.sort\<close> is stable, and the comparator is the difference of the entry
  instants, so the final sort is the stable sort by descending entry time.
\<close>

definition generateTrades ::
  "rng \<Rightarrow> nat \<Rightarrow> int \<Rightarrow> string list \<Rightarrow> (string \<rightharpoonup> real) \<Rightarrow> real \<Rightarrow> nat \<Rightarrow> string
    \<Rightarrow> trade list \<times> nat" where
  "generateTrades rs k now symbols priceMap lev count prefix =
     (case foldl (generateTrades_step rs now symbols priceMap lev prefix) ([], k) [0..<count]
      of (trades, k') \<Rightarrow> (sort_key (\<lambda>t. - entry_time t) trades, k'))"

subsection \<open>Positions (from open trades)\<close>

record position =
  symbol :: string
  side :: string
  size :: real
  notional :: real
  entry_price :: real
  current_price :: real
  liquidation_price :: real
  unrealized_pnl :: real
  unrealized_pnl_percent :: real
  leverage :: real
  margin_used :: real
  stop_loss :: real
  take_profit :: real
  entry_time :: int
  r_multiple :: real
  regime :: string
  setup_type :: string



subsection \<open>Candle generator\<close>

record candle =
  bar_time :: int
  bar_open :: real
  bar_high :: real
  bar_low :: real
  bar_close :: real
  bar_volume :: real

text \<open>
  The body of the loop of \<^verbatim>\<open>generateCandles\<close>: four draws per bar (change, high, low,
  volume). The state is the series so far, the running price and the position of the
  next draw.
\<close>

definition generateCandles_body ::
  "rng \<Rightarrow> int \<Rightarrow> real \<Rightarrow> real \<Rightarrow> nat \<Rightarrow> int \<Rightarrow> candle list \<times> real \<times> nat \<Rightarrow> nat
    \<Rightarrow> candle list \<times> real \<times> nat" where
  "generateCandles_body rs now basePrice vol count intervalMs st i =
     (case st of (candles, price, k) \<Rightarrow>
        let trend = 0.0002;
            tm = now - (int count - int i) * intervalMs;
            opn = price;
            change = (rs k - 0.48 + trend) * vol * price;
            cls = round4 (opn + change);
            high = round4 (max opn cls + \<bar>change\<bar> * rand 0.1 1.5 (rs (k + 1)));
            low = round4 (min opn cls - \<bar>change\<bar> * rand 0.1 1.5 (rs (k + 2)));
            volume = round2 (rand 100 50000 (rs (k + 3))
                       * (if basePrice > 1000 then 0.1 else if basePrice > 10 then 10 else 1000))
        in (candles @ [\<lparr>bar_time = tm div 1000, bar_open = opn, bar_high = high,
                         bar_low = low, bar_close = cls, bar_volume = volume\<rparr>],
            cls, k + 4))"

definition generateCandles ::
  "rng \<Rightarrow> nat \<Rightarrow> int \<Rightarrow> real \<Rightarrow> nat \<Rightarrow> int \<Rightarrow> candle list \<times> nat" where
  "generateCandles rs k now basePrice count intervalMs =
     (let price = basePrice * rand 0.85 0.95 (rs k);
          vol = (if basePrice > 1000 then 0.008 else if basePrice > 10 then 0.012 else 0.02)
      in case foldl (generateCandles_body rs now basePrice vol count intervalMs)
                ([], price, Suc k) [0..<count]
         of (candles, price', k') \<Rightarrow> (candles, k'))"

text \<open>
  The candle cache is a plain object: a lookup finds the entries stored in it and, for
  a name that \<^verbatim>\<open>Object.prototype\<close> defines, the inherited (truthy) member instead of a
  series. The own entries are the map \<open>cache\<close>.
\<close>

definition Object_prototype_keys :: "string list" where
  "Object_prototype_keys =
    [''constructor'', ''__defineGetter__'', ''__defineSetter__'', ''hasOwnProperty'',
     ''__lookupGetter__'', ''__lookupSetter__'', ''isPrototypeOf'', ''propertyIsEnumerable'',
     ''toString'', ''valueOf'', ''__proto__'', ''toLocaleString'']"

datatype candles_result = Bars "candle list" | Inherited string

text \<open>\<^verbatim>\<open>a[k] || b\<close> for a table of numbers: a missing entry and 0 are falsy.\<close>

definition or_else :: "real option \<Rightarrow> real \<Rightarrow> real" where
  "or_else v d = (case v of None \<Rightarrow> d | Some p \<Rightarrow> if p = 0 then d else p)"

definition getCandlesForSymbol ::
  "rng \<Rightarrow> int \<Rightarrow> string \<Rightarrow> (string \<rightharpoonup> candle list) \<times> nat
    \<Rightarrow> candles_result \<times> (string \<rightharpoonup> candle list) \<times> nat" where
  "getCandlesForSymbol rs now smb st =
     (case st of (cache, k) \<Rightarrow>
        (case cache smb of
           Some bars \<Rightarrow> (Bars bars, cache, k)
         | None \<Rightarrow>
             if smb \<in> set Object_prototype_keys then (Inherited smb, cache, k)
             else let base = or_else (CRYPTO_PRICES smb) (or_else (STOCK_PRICES smb) 100)
                  in (case generateCandles rs k now base 500 (5 * 60 * 1000)
                      of (bars, k') \<Rightarrow> (Bars bars, cache(smb \<mapsto> bars), k'))))"

text \<open>
  The symbol that the candles route passes: the last segment of the address, up to a
  question mark, in upper case. Characters are those of ASCII.
\<close>

fun split_on :: "char \<Rightarrow> string \<Rightarrow> string list" where
  "split_on c [] = [[]]"
| "split_on c (x # xs) =
     (if x = c then [] # split_on c xs
      else (case split_on c xs of ys # yss \<Rightarrow> (x # ys) # yss | [] \<Rightarrow> [[x]]))"

definition toUpperCase_char :: "char \<Rightarrow> char" where
  "toUpperCase_char c =
     (if (97 :: nat) \<le> of_char c \<and> (of_char c :: nat) \<le> 122
      then char_of ((of_char c :: nat) - 32) else c)"

definition toUpperCase :: "string \<Rightarrow> string" where
  "toUpperCase s = map toUpperCase_char s"

definition candles_symbol :: "string \<Rightarrow> string" where
  "candles_symbol url = toUpperCase (hd (split_on (CHR ''?'') (last (split_on (CHR ''/'') url))))"

subsection \<open>Equity curves\<close>

record equity_point =
  date :: int
  equity :: real

text \<open>
  One round of the loop of \<^verbatim>\<open>generateEquityCurve\<close>; the state is the curve so far, the
  running balance and the position of the next draw. The field \<open>date\<close> holds the instant
  whose calendar day the source prints.
\<close>

definition equity_step ::
  "rng \<Rightarrow> int \<Rightarrow> nat \<Rightarrow> real \<Rightarrow> real \<Rightarrow> equity_point list \<times> real \<times> nat \<Rightarrow> nat
    \<Rightarrow> equity_point list \<times> real \<times> nat" where
  "equity_step rs now days dailyReturn volatility st d =
     (case st of (curve, bal, k) \<Rightarrow>
        let date = now - (int days - int d) * DAY_MS;
            bal' = round2 (bal * (1 + dailyReturn + rand (- volatility) volatility (rs k)))
        in (curve @ [\<lparr>date = date, equity = bal'\<rparr>], bal', Suc k))"

definition generateEquityCurve ::
  "rng \<Rightarrow> nat \<Rightarrow> int \<Rightarrow> real \<Rightarrow> nat \<Rightarrow> real \<Rightarrow> real \<Rightarrow> equity_point list \<times> nat" where
  "generateEquityCurve rs k now startBalance days dailyReturn volatility =
     (case foldl (equity_step rs now days dailyReturn volatility) ([], startBalance, k) [0..<days]
      of (curve, bal, k') \<Rightarrow> (curve, k'))"

text \<open>
  \<^verbatim>\<open>generateEquitySymbols\<close>: the result object is an association list in insertion order.
  The daily return is drawn before the curve is generated.
\<close>

definition equity_symbols_step ::
  "rng \<Rightarrow> int \<Rightarrow> (string \<times> equity_point list) list \<times> nat \<Rightarrow> string
    \<Rightarrow> (string \<times> equity_point list) list \<times> nat" where
  "equity_symbols_step rs now st sy =
     (case st of (result, k) \<Rightarrow>
        (case generateEquityCurve rs (Suc k) now 0 45 (rand 0.005 0.02 (rs k)) 0.015
         of (curve, k') \<Rightarrow> (AList.update sy curve result, k')))"

definition generateEquitySymbols ::
  "rng \<Rightarrow> nat \<Rightarrow> int \<Rightarrow> string list \<Rightarrow> (string \<times> equity_point list) list \<times> nat" where
  "generateEquitySymbols rs k now symbols = foldl (equity_symbols_step rs now) ([], k) symbols"

subsection \<open>Alert and error generators\<close>

text \<open>
  \<^verbatim>\<open>uuid()\<close>: every \<^verbatim>\<open>x\<close> and \<^verbatim>\<open>y\<close> of the template is replaced, from left to right, by
  a hexadecimal digit made from one draw; \<^verbatim>\<open>Math.random() * 16 | 0\<close> is the floor of a
  non-negative number, and \<^verbatim>\<open>r & 0x3 | 0x8\<close> is \<open>8 + r mod 4\<close>.
\<close>

definition hex_digit :: "nat \<Rightarrow> char" where
  "hex_digit r = ''0123456789abcdef'' ! r"

fun uuid_replace :: "rng \<Rightarrow> string \<Rightarrow> nat \<Rightarrow> string" where
  "uuid_replace rs [] k = []"
| "uuid_replace rs (c # cs) k =
     (if c = CHR ''x'' then hex_digit (nat \<lfloor>rs k * 16\<rfloor>) # uuid_replace rs cs (Suc k)
      else if c = CHR ''y'' then hex_digit (8 + nat \<lfloor>rs k * 16\<rfloor> mod 4) # uuid_replace rs cs (Suc k)
      else c # uuid_replace rs cs k)"

definition uuid :: "rng \<Rightarrow> nat \<Rightarrow> string" where
  \<comment> \<open>31 draws, from position \<open>k\<close> on\<close>
  "uuid rs k = uuid_replace rs ''xxxxxxxx-xxxx-4xxx-yxxx-xxxxxxxxxxxx'' k"

text \<open>The dash of the message catalogues (U+2014), in UTF-8.\<close>

definition em_dash :: string where
  "em_dash = [char_of (226 :: nat), char_of (128 :: nat), char_of (148 :: nat)]"

record alert =
  alert_id :: string
  timestamp :: int
  level :: string
  message :: string
  source :: string
  acknowledged :: bool

definition alert_msgs :: "(string \<times> string) list" where
  "alert_msgs =
    [(''info'', ''Scheduled scan completed successfully''),
     (''info'', ''Position BTC LONG trailing stop updated''),
     (''info'', ''Heartbeat check passed '' @ em_dash @ '' all systems nominal''),
     (''info'', ''Daily P&L report generated: +$312.40''),
     (''info'', ''New signal evaluated for ETH '' @ em_dash @ '' confidence below threshold''),
     (''warning'', ''API latency elevated: 230ms (threshold: 200ms)''),
     (''warning'', ''Memory usage at 78% '' @ em_dash @ '' monitoring closely''),
     (''info'', ''Risk guardian check passed '' @ em_dash @ '' all positions within limits''),
     (''warning'', ''Drawdown approaching soft limit: 4.5% (threshold: 5.0%)''),
     (''info'', ''Candle cache refreshed for 7 symbols''),
     (''info'', ''Database connection pool healthy: 3/10 active''),
     (''info'', ''On-chain regime updated: Growth (score 72)''),
     (''warning'', ''Rate limit warning: 45/50 requests in window''),
     (''info'', ''Stop loss adjusted for SOL LONG '' @ em_dash @ '' trailing +1.2R'')]"

text \<open>
  A count is a JavaScript number that is an integer or \<^verbatim>\<open>NaN\<close> (\<open>None\<close>). The loop
  \<^verbatim>\<open>for (let i = 0; i < count; i++)\<close> runs \<open>count\<close> times for a positive count and not
  at all for a count that is zero, negative or \<^verbatim>\<open>NaN\<close>.
\<close>

definition iterations :: "int option \<Rightarrow> nat" where
  "iterations count = (case count of None \<Rightarrow> 0 | Some c \<Rightarrow> nat c)"

definition generateAlerts_body :: "rng \<Rightarrow> int \<Rightarrow> alert list \<times> nat \<Rightarrow> nat \<Rightarrow> alert list \<times> nat" where
  "generateAlerts_body rs now st i =
     (case st of (alerts, k) \<Rightarrow>
        let m = pick alert_msgs (rs k)
        in (alerts @
              [\<lparr>alert_id = uuid rs (k + 1),
                timestamp = isoAgo now (randInt 0 24 (rs (k + 32)) * HOUR_MS
                                        + randInt 0 59 (rs (k + 33)) * 60000),
                level = fst m,
                message = snd m,
                source = pick [''crypto-bot'', ''hip3-bot'', ''monitor'', ''system''] (rs (k + 34)),
                acknowledged = (i > 5)\<rparr>],
            k + 35))"

definition generateAlerts :: "rng \<Rightarrow> nat \<Rightarrow> int \<Rightarrow> int option \<Rightarrow> alert list \<times> nat" where
  "generateAlerts rs k now count =
     (case foldl (generateAlerts_body rs now) ([], k) [0..<iterations count]
      of (alerts, k') \<Rightarrow> (sort_key (\<lambda>a. - timestamp a) alerts, k'))"

record error_entry =
  error_id :: string
  timestamp :: int
  message :: string
  resolved :: bool
  source :: string

definition error_msgs :: "(string \<times> bool) list" where
  "error_msgs =
    [(''Temporary connection timeout to price feed'', True),
     (''Order rejected: insufficient margin (auto-recovered)'', True),
     (''WebSocket reconnection after brief disconnect'', True),
     (''Rate limit hit '' @ em_dash @ '' backed off 2s and retried'', True),
     (''Stale candle data detected '' @ em_dash @ '' refreshed cache'', True),
     (''Database pool exhausted briefly '' @ em_dash @ '' expanded pool'', True),
     (''DNS resolution delay for API endpoint'', True)]"

text \<open>The field \<^verbatim>\<open>stack\<close> of an error entry is always \<^verbatim>\<open>null\<close> and is left out of the record.\<close>

definition generateErrors_body ::
  "rng \<Rightarrow> int \<Rightarrow> error_entry list \<times> nat \<Rightarrow> nat \<Rightarrow> error_entry list \<times> nat" where
  "generateErrors_body rs now st i =
     (case st of (errors, k) \<Rightarrow>
        let m = pick error_msgs (rs k)
        in (errors @
              [\<lparr>error_id = uuid rs (k + 1),
                timestamp = isoAgo now (randInt 2 72 (rs (k + 32)) * HOUR_MS),
                message = fst m,
                resolved = snd m,
                source = pick [''crypto-bot'', ''hip3-bot'', ''system''] (rs (k + 33))\<rparr>],
            k + 34))"

definition generateErrors :: "rng \<Rightarrow> nat \<Rightarrow> int \<Rightarrow> int option \<Rightarrow> error_entry list \<times> nat" where
  "generateErrors rs k now count =
     (case foldl (generateErrors_body rs now) ([], k) [0..<iterations count]
      of (errors, k') \<Rightarrow> (sort_key (\<lambda>e. - error_entry.timestamp e) errors, k'))"

subsection \<open>The limit parameter\<close>

text \<open>
  \<^verbatim>\<open>parseInt(s)\<close> without a radix: leading white space is skipped, a sign is read, the
  prefix \<^verbatim>\<open>0x\<close> selects base 16, and the longest run of digits is the value; without a
  digit the result is \<^verbatim>\<open>NaN\<close> (\<open>None\<close>). The value is the exact integer: the source
  holds a floating-point approximation of a very long number, which compares with the
  ceilings 20 and 7 as the exact value does.
\<close>

definition is_space :: "char \<Rightarrow> bool" where
  "is_space c \<longleftrightarrow> (of_char c :: nat) \<in> {9, 10, 11, 12, 13, 32}"

definition digit_val :: "char \<Rightarrow> nat option" where
  "digit_val c =
     (let n = (of_char c :: nat)
      in if 48 \<le> n \<and> n \<le> 57 then Some (n - 48)
         else if 97 \<le> n \<and> n \<le> 122 then Some (n - 87)
         else if 65 \<le> n \<and> n \<le> 90 then Some (n - 55)
         else None)"

definition is_digit :: "nat \<Rightarrow> char \<Rightarrow> bool" where
  "is_digit radix c = (case digit_val c of None \<Rightarrow> False | Some d \<Rightarrow> d < radix)"

definition digits_value :: "nat \<Rightarrow> string \<Rightarrow> nat" where
  "digits_value radix ds = foldl (\<lambda>a c. a * radix + the (digit_val c)) 0 ds"

definition parseInt_unsigned :: "string \<Rightarrow> int option" where
  "parseInt_unsigned s =
     (let hex = (case s of c # x # r \<Rightarrow> c = CHR ''0'' \<and> (x = CHR ''x'' \<or> x = CHR ''X'') | _ \<Rightarrow> False);
          radix = (if hex then 16 else 10);
          ds = takeWhile (is_digit radix) (if hex then drop 2 s else s)
      in if ds = [] then None else Some (int (digits_value radix ds)))"

definition parseInt :: "string \<Rightarrow> int option" where
  "parseInt s =
     (case dropWhile is_space s of
        [] \<Rightarrow> None
      | c # r \<Rightarrow>
          if c = CHR ''-'' then map_option uminus (parseInt_unsigned r)
          else if c = CHR ''+'' then parseInt_unsigned r
          else parseInt_unsigned (c # r))"

text \<open>\<^verbatim>\<open>searchParams.get('limit') || d\<close>: a missing and an empty parameter give the default.\<close>

definition param_or :: "string option \<Rightarrow> string \<Rightarrow> string" where
  "param_or q d = (case q of None \<Rightarrow> d | Some s \<Rightarrow> if s = [] then d else s)"

text \<open>\<^verbatim>\<open>Math.min(limit, c)\<close>, which is \<^verbatim>\<open>NaN\<close> for a limit that is \<^verbatim>\<open>NaN\<close>.\<close>

definition js_min :: "int option \<Rightarrow> int \<Rightarrow> int option" where
  "js_min limit c = map_option (\<lambda>n. min n c) limit"

text \<open>
  The handlers of the monitor alerts and errors routes, from the value \<open>q\<close> of the
  parameter \<^verbatim>\<open>limit\<close> of the address.
\<close>

definition monitor_alerts :: "rng \<Rightarrow> nat \<Rightarrow> int \<Rightarrow> string option \<Rightarrow> alert list \<times> nat" where
  "monitor_alerts rs k now q = generateAlerts rs k now (js_min (parseInt (param_or q ''20'')) 20)"

definition monitor_errors :: "rng \<Rightarrow> nat \<Rightarrow> int \<Rightarrow> string option \<Rightarrow> error_entry list \<times> nat" where
  "monitor_errors rs k now q = generateErrors rs k now (js_min (parseInt (param_or q ''30'')) 7)"

subsection \<open>Requests and payloads\<close>

text \<open>
  A request as the interceptor sees it: the address string, the path name that the URL
  parser (or, when it fails, the cut at the first question mark) gives for it, the value
  of the parameter \<^verbatim>\<open>limit\<close> that the URL parser finds in it, and \<^verbatim>\<open>options.method\<close>
  (\<open>None\<close> when there are no options or no method; the interceptor does not read the
  method of a \<^verbatim>\<open>Request\<close> object).
\<close>

record request =
  url :: string
  pathname :: string
  limit :: "string option"
  http_method :: "string option"

text \<open>
  Payloads are JSON values. An ISO time string is \<open>JTime\<close> of its instant and a date
  string \<open>JDate\<close> of an instant of that day. \<open>JTable name members\<close> stands for a table
  that the script builds once when it loads (or a literal table returned by the named
  function), by its name in the source, with the listed members replaced.
\<close>

datatype json =
    JNull
  | JBool bool
  | JNum real
  | JStr string
  | JTime int
  | JDate int
  | JArr "json list"
  | JObj "(string \<times> json) list"
  | JTable string "(string \<times> json) list"

type_synonym world = "(string \<rightharpoonup> candle list) \<times> nat"

fun string_includes :: "string \<Rightarrow> string \<Rightarrow> bool" where
  "string_includes [] sub = (sub = [])"
| "string_includes (c # cs) sub = (take (length sub) (c # cs) = sub \<or> string_includes cs sub)"

definition startsWith :: "string \<Rightarrow> string \<Rightarrow> bool" where
  "startsWith s p \<longleftrightarrow> take (length p) s = p"

definition isCrypto :: "string \<Rightarrow> bool" where
  "isCrypto u \<longleftrightarrow> string_includes u '':9100'' \<or> string_includes u ''/crypto/''
     \<or> (\<not> string_includes u '':9300'' \<and> \<not> string_includes u '':9200'' \<and> \<not> string_includes u '':9400''
         \<and> \<not> string_includes u ''/hip3/'')"

definition isHip3 :: "string \<Rightarrow> bool" where
  "isHip3 u \<longleftrightarrow> string_includes u '':9300'' \<or> string_includes u ''/hip3/''"

definition isMonitor :: "string \<Rightarrow> bool" where
  "isMonitor u \<longleftrightarrow> string_includes u '':9200'' \<or> string_includes u ''/monitor/''"

definition isFunding :: "string \<Rightarrow> bool" where
  "isFunding u \<longleftrightarrow> string_includes u '':9400'' \<or> string_includes u ''/funding/''"

definition candle_json :: "candle \<Rightarrow> json" where
  "candle_json b =
     JObj [(''time'', JNum (of_int (bar_time b))), (''open'', JNum (bar_open b)),
           (''high'', JNum (bar_high b)), (''low'', JNum (bar_low b)),
           (''close'', JNum (bar_close b)), (''volume'', JNum (bar_volume b))]"

definition alert_json :: "alert \<Rightarrow> json" where
  "alert_json a =
     JObj [(''id'', JStr (alert_id a)), (''timestamp'', JTime (alert.timestamp a)),
           (''level'', JStr (level a)), (''message'', JStr (alert.message a)),
           (''source'', JStr (alert.source a)), (''acknowledged'', JBool (acknowledged a))]"

definition error_json :: "error_entry \<Rightarrow> json" where
  "error_json e =
     JObj [(''id'', JStr (error_id e)), (''timestamp'', JTime (error_entry.timestamp e)),
           (''message'', JStr (error_entry.message e)), (''resolved'', JBool (resolved e)),
           (''source'', JStr (error_entry.source e)), (''stack'', JNull)]"

definition equity_point_json :: "equity_point \<Rightarrow> json" where
  "equity_point_json p = JObj [(''date'', JDate (date p)), (''equity'', JNum (equity p))]"

subsection \<open>Coin scanner and prices\<close>

definition scanner_coins :: "(string \<times> string \<times> string) list" where
  "scanner_coins =
    [(''RENDER'', ''Render'', ''AI/GPU''), (''FET'', ''Fetch.ai'', ''AI''),
     (''INJ'', ''Injective'', ''DeFi''), (''TIA'', ''Celestia'', ''Modular''),
     (''PYTH'', ''Pyth Network'', ''Oracle''), (''JUP'', ''Jupiter'', ''DEX''),
     (''WIF'', ''dogwifhat'', ''Meme''), (''ONDO'', ''Ondo Finance'', ''RWA''),
     (''STRK'', ''Starknet'', ''L2''), (''APT'', ''Aptos'', ''L1''),
     (''ARB'', ''Arbitrum'', ''L2''), (''OP'', ''Optimism'', ''L2''),
     (''NEAR'', ''NEAR Protocol'', ''L1''), (''AVAX'', ''Avalanche'', ''L1''),
     (''ATOM'', ''Cosmos'', ''Interop''), (''DOT'', ''Polkadot'', ''Interop''),
     (''AAVE'', ''Aave'', ''DeFi''), (''MKR'', ''Maker'', ''DeFi''),
     (''PENDLE'', ''Pendle'', ''DeFi''), (''TAO'', ''Bittensor'', ''AI'')]"

definition scanner_coin :: "rng \<Rightarrow> nat \<Rightarrow> string \<times> string \<times> string \<Rightarrow> json" where
  \<comment> \<open>nine draws, from position \<open>k\<close> on\<close>
  "scanner_coin rs k c =
     (case c of (smb, name, sector) \<Rightarrow>
        JObj [(''symbol'', JStr smb), (''name'', JStr name), (''sector'', JStr sector),
              (''price'', JNum (round4 (rand 0.5 500 (rs k)))),
              (''change_24h'', JNum (round2 (rand (- 8) 15 (rs (k + 1))))),
              (''change_7d'', JNum (round2 (rand (- 15) 30 (rs (k + 2))))),
              (''volume_24h'', JNum (round2 (rand 10 500 (rs (k + 3)) * 1000000))),
              (''market_cap'', JNum (round2 (rand 100 5000 (rs (k + 4)) * 1000000))),
              (''momentum_score'', JNum (of_int (randInt 20 95 (rs (k + 5))))),
              (''signal'', JStr (pick [''strong_buy'', ''buy'', ''neutral'', ''sell''] (rs (k + 6)))),
              (''relative_strength'', JNum (round2 (rand 30 95 (rs (k + 7))))),
              (''breakout_proximity'', JNum (round2 (rand 0 100 (rs (k + 8)))))])"

definition generateCoinScanner :: "rng \<Rightarrow> nat \<Rightarrow> json list \<times> nat" where
  "generateCoinScanner rs k =
     (map (\<lambda>i. scanner_coin rs (k + 9 * i) (scanner_coins ! i)) [0..<length scanner_coins],
      k + 9 * length scanner_coins)"

definition jittered_prices :: "rng \<Rightarrow> nat \<Rightarrow> (string \<times> json) list \<times> nat" where
  "jittered_prices rs k =
     (map (\<lambda>i. (fst (STOCK_PRICES_entries ! i),
                  JNum (round2 (snd (STOCK_PRICES_entries ! i) + rand (- 2) 2 (rs (k + i))))))
        [0..<length STOCK_PRICES_entries],
      k + length STOCK_PRICES_entries)"

subsection \<open>The route table\<close>

text \<open>
  A route is a predicate on the path name and the address, and a handler. A handler
  reads the request and the state (the candle cache and the position of the next draw) and
  returns the payload with the new state.
\<close>

type_synonym route = "(string \<Rightarrow> string \<Rightarrow> bool) \<times> (request \<Rightarrow> world \<Rightarrow> json \<times> world)"

definition static :: "json \<Rightarrow> request \<Rightarrow> world \<Rightarrow> json \<times> world" where
  "static j r w = (j, w)"

definition stats_handler :: "rng \<Rightarrow> request \<Rightarrow> world \<Rightarrow> json \<times> world" where
  "stats_handler rs r w =
     (case w of (cache, k) \<Rightarrow>
        let name = (if isHip3 (url r) then ''HIP3_STATS'' else ''CRYPTO_STATS'');
            balance = (if isHip3 (url r) then 12850.30 else 15420.50);
            pnl_today = (if isHip3 (url r) then 187.20 else 312.40)
        in if string_includes (url r) ''accurate''
           then (JTable name
                   [(''balance'', JNum (round2 (balance + rand (- 5) 5 (rs k)))),
                    (''pnl_today'', JNum (round2 (pnl_today + rand (- 2) 2 (rs (k + 1)))))],
                 (cache, k + 2))
           else (JTable name [], (cache, k)))"

definition candles_handler :: "rng \<Rightarrow> int \<Rightarrow> request \<Rightarrow> world \<Rightarrow> json \<times> world" where
  \<comment> \<open>the inherited member is not reached: the symbol is in upper case\<close>
  "candles_handler rs now r w =
     (case getCandlesForSymbol rs now (candles_symbol (url r)) w of
        (Bars bars, w') \<Rightarrow> (JArr (map candle_json bars), w')
      | (Inherited n, w') \<Rightarrow> (JNull, w'))"

definition settings_handler :: "request \<Rightarrow> world \<Rightarrow> json \<times> world" where
  "settings_handler r w =
     (if http_method r = Some ''POST'' then (JObj [(''success'', JBool True)], w)
      else (JObj [(''success'', JBool True),
                  (''settings'',
                   JObj [(''theme'', JStr ''matrix''), (''language'', JStr ''en''),
                         (''refresh_interval'', JNum 30),
                         (''notifications_enabled'', JBool True),
                         (''sound_enabled'', JBool False)])], w))"

definition last_scan_handler :: "int \<Rightarrow> request \<Rightarrow> world \<Rightarrow> json \<times> world" where
  "last_scan_handler now r w =
     (JObj [(''timestamp'', JTime (isoAgo now 30000)), (''duration'', JNum 3.2),
            (''symbols_scanned'', JNum 7), (''signals_found'', JNum 1),
            (''status'', JStr ''ok'')], w)"

definition latency_handler :: "rng \<Rightarrow> request \<Rightarrow> world \<Rightarrow> json \<times> world" where
  "latency_handler rs r w =
     (case w of (cache, k) \<Rightarrow>
        (JObj [(''latency'', JNum (of_int (randInt 35 65 (rs k))))], (cache, Suc k)))"

definition equity_symbols_handler :: "rng \<Rightarrow> int \<Rightarrow> request \<Rightarrow> world \<Rightarrow> json \<times> world" where
  "equity_symbols_handler rs now r w =
     (case w of (cache, k) \<Rightarrow>
        (case generateEquitySymbols rs k now (if isHip3 (url r) then STOCK_SYMBOLS else CRYPTO_SYMBOLS)
         of (result, k') \<Rightarrow>
           (JObj (map (\<lambda>(s, curve). (s, JArr (map equity_point_json curve))) result),
            (cache, k'))))"

definition prices_handler :: "rng \<Rightarrow> int \<Rightarrow> request \<Rightarrow> world \<Rightarrow> json \<times> world" where
  "prices_handler rs now r w =
     (case w of (cache, k) \<Rightarrow>
        (case jittered_prices rs k of (prices, k') \<Rightarrow>
           (JObj [(''prices'', JObj prices), (''last_update'', JTime now)], (cache, k'))))"

definition monitor_alerts_handler :: "rng \<Rightarrow> int \<Rightarrow> request \<Rightarrow> world \<Rightarrow> json \<times> world" where
  "monitor_alerts_handler rs now r w =
     (case w of (cache, k) \<Rightarrow>
        (case monitor_alerts rs k now (limit r) of (alerts, k') \<Rightarrow>
           (JObj [(''alerts'', JArr (map alert_json alerts))], (cache, k'))))"

definition monitor_errors_handler :: "rng \<Rightarrow> int \<Rightarrow> request \<Rightarrow> world \<Rightarrow> json \<times> world" where
  "monitor_errors_handler rs now r w =
     (case w of (cache, k) \<Rightarrow>
        (case monitor_errors rs k now (limit r) of (errors, k') \<Rightarrow>
           (JObj [(''errors'', JArr (map error_json errors))], (cache, k'))))"

definition drift_payload :: "int \<Rightarrow> json" where
  "drift_payload now =
     JObj [(''drift_detected'', JBool False), (''positions'', JArr []),
           (''last_check'', JTime now), (''threshold'', JNum 0.05)]"

definition kill_switch_payload :: json where
  "kill_switch_payload =
     JObj [(''active'', JBool False), (''activated_at'', JNull), (''reason'', JNull)]"

definition coin_scanner_handler :: "rng \<Rightarrow> int \<Rightarrow> request \<Rightarrow> world \<Rightarrow> json \<times> world" where
  "coin_scanner_handler rs now r w =
     (case w of (cache, k) \<Rightarrow>
        (case generateCoinScanner rs k of (coins, k') \<Rightarrow>
           (JObj [(''coins'', JArr coins), (''last_update'', JTime now),
                  (''total_scanned'', JNum 200), (''btc_dominance'', JNum 52.3)],
            (cache, k'))))"

definition regime_payload :: "int \<Rightarrow> json" where
  "regime_payload now =
     JObj [(''regime'', JStr ''Growth''), (''score'', JNum 72), (''confidence'', JNum 0.81),
           (''last_update'', JTime now), (''next_update'', JTime (now + 6 * HOUR_MS)),
           (''metrics'',
            JObj [(''Net Capital Flow'', JObj [(''value'', JNum 62), (''signal'', JStr ''bullish'')]),
                  (''Active Addresses'', JObj [(''value'', JNum 58), (''signal'', JStr ''bullish'')]),
                  (''Transaction Volume'', JObj [(''value'', JNum 71), (''signal'', JStr ''bullish'')]),
                  (''DEX Activity'', JObj [(''value'', JNum 45), (''signal'', JStr ''neutral'')]),
                  (''Gas Usage'', JObj [(''value'', JNum 55), (''signal'', JStr ''neutral'')])]),
           (''effects'',
            JObj [(''tp_multiplier'', JNum 1.15), (''confidence_bonus'', JNum 0.05),
                  (''max_positions_modifier'', JNum 0)])]"

definition MOCK_ROUTES :: "rng \<Rightarrow> int \<Rightarrow> route list" where
  "MOCK_ROUTES rs now =
    [(\<lambda>p u. p = ''/status'',
      \<lambda>r. static (JTable (if isHip3 (url r) then ''HIP3_STATUS'' else ''CRYPTO_STATUS'') []) r),
     (\<lambda>p u. p = ''/api/stats'' \<or> p = ''/api/stats/accurate'', stats_handler rs),
     (\<lambda>p u. p = ''/api/trades'',
      \<lambda>r. static (JTable (if isHip3 (url r) then ''HIP3_TRADES'' else ''CRYPTO_TRADES'') []) r),
     (\<lambda>p u. p = ''/api/positions'',
      \<lambda>r. static (JTable (if isHip3 (url r) then ''HIP3_POSITIONS'' else ''CRYPTO_POSITIONS'') []) r),
     (\<lambda>p u. p = ''/api/capital-events'',
      \<lambda>r. static (JTable (if isHip3 (url r) then ''HIP3_CAPITAL_EVENTS''
                           else ''CRYPTO_CAPITAL_EVENTS'') []) r),
     (\<lambda>p u. startsWith p ''/api/candles/'', candles_handler rs now),
     (\<lambda>p u. p = ''/api/dashboard/settings'', settings_handler),
     (\<lambda>p u. p = ''/api/services'', static (JTable ''SERVICES'' [])),
     (\<lambda>p u. p = ''/api/last_scan'', last_scan_handler now),
     (\<lambda>p u. p = ''/api/latency'', latency_handler rs),
     (\<lambda>p u. p = ''/api/analytics/comparison'', static (JTable ''ANALYTICS_COMPARISON'' [])),
     (\<lambda>p u. p = ''/api/analytics/equity-symbols'', equity_symbols_handler rs now),
     (\<lambda>p u. p = ''/api/analytics/sessions'', static (JTable ''generateSessions'' [])),
     (\<lambda>p u. p = ''/api/prices'', prices_handler rs now),
     (\<lambda>p u. p = ''/api/monitor/status'', static (JTable ''MONITOR_STATUS'' [])),
     (\<lambda>p u. startsWith p ''/api/monitor/alerts'', monitor_alerts_handler rs now),
     (\<lambda>p u. startsWith p ''/api/monitor/errors'', monitor_errors_handler rs now),
     (\<lambda>p u. string_includes p ''/drift'', static (drift_payload now)),
     (\<lambda>p u. string_includes p ''/kill-switch'' \<or> string_includes p ''/kill_switch'', static kill_switch_payload),
     (\<lambda>p u. p = ''/api/monitor/altseason'' \<or> p = ''/api/altseason'',
      static (JTable ''ALTSEASON_DATA'' [])),
     (\<lambda>p u. p = ''/api/monitor/coin-scanner'' \<or> p = ''/api/coin-scanner'',
      coin_scanner_handler rs now),
     (\<lambda>p u. p = ''/api/funding/status'', static (JTable ''FUNDING_STATUS'' [])),
     (\<lambda>p u. p = ''/api/funding/stats'', static (JTable ''FUNDING_STATS'' [])),
     (\<lambda>p u. p = ''/api/funding/position'', static JNull),
     (\<lambda>p u. p = ''/api/regime'' \<or> p = ''/api/onchain/regime'', static (regime_payload now))]"

subsection \<open>The fetch interceptor\<close>

text \<open>
  What a call of the replaced \<^verbatim>\<open>window.fetch\<close> does: it hands the call to the original
  \<^verbatim>\<open>fetch\<close> (\<open>Passthrough\<close>), or it resolves to a response with a status, a JSON
  body and possibly the header \<^verbatim>\<open>X-Demo-Mode\<close>, after an optional delay in milliseconds,
  having shown the demo toast or written the console warning or neither.
\<close>

datatype effect = Toast | Warning

datatype outcome =
    Passthrough
  | Respond (status_code: nat) (body: json) (demo_header: bool) (delay: "int option")
      (effect: "effect option")

definition passes_through :: "string \<Rightarrow> bool" where
  "passes_through u \<longleftrightarrow>
     string_includes u ''binance.com'' \<or> string_includes u ''coingecko.com'' \<or> string_includes u ''coinmarketcap.com''
     \<or> string_includes u ''cdn.'' \<or> string_includes u ''fonts.'' \<or> string_includes u ''googleapis.com''
     \<or> string_includes u ''jsdelivr.net''"

definition method_of :: "request \<Rightarrow> string" where
  \<comment> \<open>\<^verbatim>\<open>(options && options.method) || 'GET'\<close>\<close>
  "method_of r = (case http_method r of None \<Rightarrow> ''GET'' | Some m \<Rightarrow> if m = [] then ''GET'' else m)"

definition mutating :: "string \<Rightarrow> bool" where
  "mutating m \<longleftrightarrow> m = ''POST'' \<or> m = ''PUT'' \<or> m = ''DELETE''"

definition find_route :: "route list \<Rightarrow> request \<Rightarrow> route option" where
  "find_route routes r = find (\<lambda>rt. fst rt (pathname r) (url r)) routes"

definition fetch_with :: "route list \<Rightarrow> rng \<Rightarrow> request \<Rightarrow> world \<Rightarrow> outcome \<times> world" where
  "fetch_with routes rs r w =
     (if passes_through (url r) then (Passthrough, w)
      else if mutating (method_of r) then
        (if pathname r = ''/api/dashboard/settings''
         then (Respond 200 (JObj [(''success'', JBool True)]) False None None, w)
         else (Respond 200 (JObj [(''success'', JBool True), (''demo'', JBool True)]) False None
                 (Some Toast), w))
      else
        (case find_route routes r of
           Some rt \<Rightarrow>
             (case snd rt r w of (b, cache, k) \<Rightarrow>
                (Respond 200 b True (Some (randInt 20 80 (rs k))) None, (cache, Suc k)))
         | None \<Rightarrow>
             if startsWith (pathname r) ''/api/'' \<or> pathname r = ''/status''
             then (Respond 200 (JObj [(''success'', JBool True), (''data'', JNull),
                                       (''demo'', JBool True)]) False None (Some Warning), w)
             else (Passthrough, w)))"

definition fetch :: "rng \<Rightarrow> int \<Rightarrow> request \<Rightarrow> world \<Rightarrow> outcome \<times> world" where
  "fetch rs now r w = fetch_with (MOCK_ROUTES rs now) rs r w"

subsection \<open>The XMLHttpRequest interceptor\<close>

text \<open>
  \<^verbatim>\<open>MockXHR.open\<close> decides whether the request is intercepted; for an intercepted
  request the timer callback of \<^verbatim>\<open>MockXHR.send\<close> computes the body from the route table,
  whatever the method is, and answers with status 200.
\<close>

definition shouldIntercept :: "string \<Rightarrow> bool" where
  "shouldIntercept u \<longleftrightarrow>
     \<not> string_includes u ''binance.com'' \<and> \<not> string_includes u ''coingecko.com'' \<and> \<not> string_includes u ''cdn.''
     \<and> \<not> string_includes u ''fonts.'' \<and> (string_includes u ''/api/'' \<or> string_includes u ''/status'')"

definition xhr_body :: "rng \<Rightarrow> int \<Rightarrow> request \<Rightarrow> world \<Rightarrow> json \<times> world" where
  "xhr_body rs now r w =
     (case find_route (MOCK_ROUTES rs now) r of
        Some rt \<Rightarrow> snd rt r w
      | None \<Rightarrow> (JObj [(''success'', JBool True), (''data'', JNull), (''demo'', JBool True)], w))"

subsection \<open>The mock WebSocket\<close>

definition LOG_MESSAGES :: "(string \<times> string) list" where
  "LOG_MESSAGES =
    [(''INFO'', ''Scanning market conditions...''),
     (''INFO'', ''Analyzing BTC setup '' @ em_dash @ '' evaluating confluence factors''),
     (''INFO'', ''Risk check passed for all active positions''),
     (''INFO'', ''Position monitoring active '' @ em_dash @ '' 3 open positions''),
     (''INFO'', ''Signal evaluated for ETH: no entry '' @ em_dash @ '' insufficient confidence (0.52)''),
     (''INFO'', ''Heartbeat OK '' @ em_dash @ '' all systems nominal''),
     (''INFO'', ''Trailing stop updated for SOL LONG: +1.8R''),
     (''INFO'', ''Candle data refreshed '' @ em_dash @ '' 7 symbols updated''),
     (''INFO'', ''Guardian check: drawdown 1.2% '' @ em_dash @ '' within limits''),
     (''DEBUG'', ''On-chain regime check: Growth (score 72, next refresh 2h)''),
     (''INFO'', ''Order filled: BTC LONG entry at $97,245.00''),
     (''INFO'', ''Stop loss placed: BTC LONG SL at $96,280.00''),
     (''INFO'', ''Take profit placed: BTC LONG TP at $99,150.00''),
     (''INFO'', ''Scan complete '' @ em_dash @ '' duration: 3.1s''),
     (''INFO'', ''Price feed latency: 42ms '' @ em_dash @ '' nominal''),
     (''DEBUG'', ''Redis cache hit ratio: 94.2%''),
     (''INFO'', ''Signal evaluated for DOGE: no entry '' @ em_dash @ '' regime filter''),
     (''INFO'', ''Balance check: $15,420.50 '' @ em_dash @ '' margin available: $12,180.30''),
     (''INFO'', ''SUI breakout detected '' @ em_dash @ '' confidence 0.78, evaluating...''),
     (''INFO'', ''SUI entry skipped '' @ em_dash @ '' max positions reached (3/3 open)''),
     (''DEBUG'', ''API weight: 23/1200 '' @ em_dash @ '' well within limits''),
     (''INFO'', ''Position SOL LONG P&L: +$142.30 (+2.1R)''),
     (''INFO'', ''Database vacuum completed '' @ em_dash @ '' 0 dead tuples''),
     (''INFO'', ''Funding rate check: ETH at 0.0145% '' @ em_dash @ '' monitoring'')]"

text \<open>
  What the client of a socket is delivered, through its handler properties and its
  listeners: the open event, message events with their data, the close event.
\<close>

datatype ws_event = Opened | Message json | Closed int string

text \<open>
  A socket: \<open>open_timer\<close> says that the 300 ms timer of the constructor has not fired
  yet, \<open>interval_set\<close> that \<^verbatim>\<open>this._interval\<close> holds a timer, \<open>interval_running\<close> that
  this timer has not been cleared, \<open>period\<close> is its period in milliseconds and
  \<open>msgIndex\<close> the counter of \<^verbatim>\<open>_startPeriodicMessages\<close>.
\<close>

record socket =
  readyState :: nat
  open_timer :: bool
  interval_set :: bool
  interval_running :: bool
  period :: int
  msgIndex :: nat
  received :: "ws_event list"

definition new_socket :: socket where
  "new_socket = \<lparr>readyState = 0, open_timer = True, interval_set = False,
     interval_running = False, period = 0, msgIndex = 0, received = []\<rparr>"

definition sendMock :: "json \<Rightarrow> socket \<Rightarrow> socket" where
  "sendMock d s = (if readyState s \<noteq> 1 then s else s\<lparr>received := received s @ [Message d]\<rparr>)"

text \<open>
  What happens to a socket: its open timer fires at time \<open>t\<close>, its interval timer fires at
  time \<open>t\<close>, the client calls \<^verbatim>\<open>close(code, reason)\<close> or \<^verbatim>\<open>send(data)\<close>. A timer that is
  not pending does not fire: such an input leaves the state as it is. The messages of one
  callback carry the time of the callback; a status message reports 3 positions, the
  number of open trades of the first catalogue.
\<close>

datatype ws_input = OpenTimer int | Tick int | CloseCall "int option" "string option" | SendCall string

definition on_open_timer :: "rng \<Rightarrow> int \<Rightarrow> socket \<times> nat \<Rightarrow> socket \<times> nat" where
  "on_open_timer rs t st =
     (case st of (s, k) \<Rightarrow>
        if \<not> open_timer s then (s, k)
        else
          let s1 = s\<lparr>open_timer := False, readyState := 1, received := received s @ [Opened]\<rparr>;
              s2 = sendMock (JObj [(''type'', JStr ''LOG''), (''timestamp'', JTime t),
                                   (''level'', JStr ''INFO''),
                                   (''message'', JStr (''WebSocket connected '' @ em_dash
                                                        @ '' live feed active''))]) s1
          in (s2\<lparr>msgIndex := 0, interval_set := True, interval_running := True,
                  period := randInt 5000 10000 (rs k)\<rparr>, Suc k))"

definition on_tick :: "rng \<Rightarrow> int \<Rightarrow> socket \<times> nat \<Rightarrow> socket \<times> nat" where
  "on_tick rs t st =
     (case st of (s, k) \<Rightarrow>
        if \<not> interval_running s then (s, k)
        else if readyState s \<noteq> 1 then (s, k)
        else
          let logMsg = LOG_MESSAGES ! (msgIndex s mod length LOG_MESSAGES);
              s1 = sendMock (JObj [(''type'', JStr ''LOG''), (''timestamp'', JTime t),
                                   (''level'', JStr (fst logMsg)), (''message'', JStr (snd logMsg))])
                     (s\<lparr>msgIndex := msgIndex s + 1\<rparr>);
              trade = (rs k < 0.125);
              smb = pick CRYPTO_SYMBOLS (rs (k + 1));
              side = pick SIDES (rs (k + 2));
              s2 = (if trade
                    then sendMock
                      (JObj [(''type'', JStr ''TRADE''), (''timestamp'', JTime t),
                             (''symbol'', JStr smb), (''side'', JStr side),
                             (''action'', JStr (pick [''entry'', ''exit'', ''sl_update'', ''tp_update'']
                                                  (rs (k + 3)))),
                             (''price'', JNum (the (CRYPTO_PRICES smb))),
                             (''message'', JStr (smb @ '' '' @ side @ '' '' @ em_dash
                                                  @ '' position updated''))]) s1
                    else s1);
              k1 = (if trade then k + 4 else k + 1);
              stat = (rs k1 < 0.083);
              s3 = (if stat
                    then sendMock
                      (JObj [(''type'', JStr ''STATUS''), (''timestamp'', JTime t),
                             (''positions'', JNum 3),
                             (''balance'', JNum (round2 (15420.50 + rand (- 10) 10 (rs (k1 + 1))))),
                             (''drawdown'', JNum (round2 (1.2 + rand (- 0.1) 0.1 (rs (k1 + 2)))))]) s2
                    else s2)
          in (s3, if stat then k1 + 3 else k1 + 1))"

definition close :: "int option \<Rightarrow> string option \<Rightarrow> socket \<Rightarrow> socket" where
  "close code reason s =
     (let s1 = (if interval_set s then s\<lparr>interval_running := False\<rparr> else s)
      in s1\<lparr>readyState := 3,
            received := received s1 @
              [Closed (case code of None \<Rightarrow> 1000 | Some c \<Rightarrow> if c = 0 then 1000 else c)
                      (case reason of None \<Rightarrow> ''Demo closed''
                       | Some r \<Rightarrow> if r = [] then ''Demo closed'' else r)]\<rparr>)"

fun ws_step :: "rng \<Rightarrow> socket \<times> nat \<Rightarrow> ws_input \<Rightarrow> socket \<times> nat" where
  "ws_step rs st (OpenTimer t) = on_open_timer rs t st"
| "ws_step rs st (Tick t) = on_tick rs t st"
| "ws_step rs st (CloseCall code reason) = (close code reason (fst st), snd st)"
| "ws_step rs st (SendCall d) = st"

definition ws_run :: "rng \<Rightarrow> ws_input list \<Rightarrow> socket \<times> nat \<Rightarrow> socket \<times> nat" where
  "ws_run rs inputs st = foldl (ws_step rs) st inputs"

definition messages :: "socket \<Rightarrow> json list" where
  "messages s = [d. Message d \<leftarrow> received s]"

subsection \<open>The candle invariant and concrete inputs\<close>

text \<open>The bar invariant of the price series: the high and the low enclose open and close.\<close>

definition ohlc_ok :: "candle \<Rightarrow> bool" where
  "ohlc_ok b \<longleftrightarrow>
     max (bar_open b) (bar_close b) \<le> bar_high b \<and> bar_low b \<le> min (bar_open b) (bar_close b)"



text \<open>
  Draws for a candle series: the start factor 0.90001 and a first change of exactly 0;
  every later draw is 1/2.
\<close>

definition draws_first_bar :: rng where
  "draws_first_bar =
     (\<lambda>n. if n = 0 then 5001 / 10000 else if n = 1 then 4798 / 10000 else 1 / 2)"

text \<open>
  Draws for a ledger of four trades of the first catalogue: the three open trades (14 draws
  each) draw 0.99 throughout, the closed trade draws 0 throughout.
\<close>

definition draws_late_close :: rng where
  "draws_late_close = (\<lambda>n. if n < 42 then 99 / 100 else 0)"

text \<open>The lower-case letters of ASCII.\<close>

definition is_lower :: "char \<Rightarrow> bool" where
  "is_lower c \<longleftrightarrow> (97 :: nat) \<le> of_char c \<and> (of_char c :: nat) \<le> 122"



definition get_unknown :: request where
  "get_unknown = \<lparr>url = ''/api/unknown'', pathname = ''/api/unknown'', limit = None,
     http_method = None\<rparr>"

definition post_unknown :: request where
  "post_unknown = \<lparr>url = ''/api/unknown'', pathname = ''/api/unknown'', limit = None,
     http_method = Some ''POST''\<rparr>"

definition post_kill_switch :: request where
  "post_kill_switch = \<lparr>url = ''http://localhost:9100/api/kill-switch'',
     pathname = ''/api/kill-switch'', limit = None, http_method = Some ''POST''\<rparr>"

definition get_kill_switch :: request where
  "get_kill_switch = \<lparr>url = ''http://localhost:9100/api/kill-switch'',
     pathname = ''/api/kill-switch'', limit = None, http_method = None\<rparr>"

definition get_drift :: request where
  "get_drift = \<lparr>url = ''/api/drift/check'', pathname = ''/api/drift/check'', limit = None,
     http_method = Some ''GET''\<rparr>"

definition get_alerts_drift :: request where
  "get_alerts_drift = \<lparr>url = ''/api/monitor/alerts/drift?limit=0'',
     pathname = ''/api/monitor/alerts/drift'', limit = Some ''0'', http_method = None\<rparr>"

section \<open>Properties\<close>

subsection \<open>Helpers\<close>

text \<open>
  A draw lies in \<open>[0, 1)\<close>. For such a draw \<^verbatim>\<open>randInt\<close> stays between its bounds and
  \<^verbatim>\<open>pick\<close> reads inside a non-empty array; \<^verbatim>\<open>split\<close> never returns an empty array.
\<close>

lemma randInt_range:
  assumes "0 \<le> u" and "u < 1" and "mn \<le> mx"
  shows "mn \<le> randInt mn mx u \<and> randInt mn mx u \<le> mx"
proof -
  define x where "x = u * (real_of_int (mx + 1) - real_of_int mn) + real_of_int mn"
  have d: "0 < real_of_int (mx + 1) - real_of_int mn" using assms(3) by simp
  have "0 \<le> u * (real_of_int (mx + 1) - real_of_int mn)" using assms(1) d by simp
  moreover have "u * (real_of_int (mx + 1) - real_of_int mn) < real_of_int (mx + 1) - real_of_int mn"
    using assms(2) d by simp
  ultimately have "real_of_int mn \<le> x" and "x < real_of_int (mx + 1)"
    by (simp_all add: x_def)
  then have "mn \<le> \<lfloor>x\<rfloor>" and "\<lfloor>x\<rfloor> < mx + 1"
    by (simp_all only: le_floor_iff floor_less_iff)
  then show ?thesis by (simp add: randInt_def rand_def x_def)
qed

lemma pick_in_range:
  assumes "0 \<le> u" and "u < 1" and "arr \<noteq> []"
  shows "pick arr u \<in> set arr"
proof -
  have "0 \<le> int (length arr) - 1" using assms(3) by (cases arr) simp_all
  from randInt_range [OF assms(1,2) this]
  have "nat (randInt 0 (int (length arr) - 1) u) < length arr" by linarith
  then show ?thesis by (simp add: pick_def)
qed

lemma split_on_nonempty: "split_on c s \<noteq> []"
  by (induction s) (auto split: list.splits)

subsection \<open>Rounding\<close>






lemma round4_mono: "x \<le> y \<Longrightarrow> round4 x \<le> round4 y"
  by (simp add: round4_def divide_right_mono floor_mono)

lemma round4_grid: "round4 (of_int n / 10000) = of_int n / 10000"
  by (simp add: round4_def)

lemma round4_round4: "round4 (round4 x) = round4 x"
  unfolding round4_def [of x] by (rule round4_grid)



subsection \<open>Position view\<close>




subsection \<open>Candles\<close>

lemma round4_max: "round4 p = p \<Longrightarrow> round4 c = c \<Longrightarrow> round4 (max p c) = max p c"
  by (simp add: max_def)

lemma round4_min: "round4 p = p \<Longrightarrow> round4 c = c \<Longrightarrow> round4 (min p c) = min p c"
  by (simp add: min_def)

lemma rand_pad_nonneg: "0 \<le> u \<Longrightarrow> 0 \<le> \<bar>change\<bar> * rand 0.1 1.5 u"
  by (simp add: rand_def)

lemma candles_body_ok:
  assumes "\<forall>n. 0 \<le> rs n" and "round4 p = p"
    and "generateCandles_body rs now base vol count iv (cs, p, k) i = (cs', p', k')"
  shows "\<exists>b. cs' = cs @ [b] \<and> ohlc_ok b \<and> round4 p' = p'"
proof -
  define ch where "ch = (rs k - 0.48 + 0.0002) * vol * p"
  define c where "c = round4 (p + ch)"
  define hi where "hi = round4 (max p c + \<bar>ch\<bar> * rand 0.1 1.5 (rs (k + 1)))"
  define lo where "lo = round4 (min p c - \<bar>ch\<bar> * rand 0.1 1.5 (rs (k + 2)))"
  have c: "round4 c = c" by (simp add: c_def round4_round4)
  have hi: "max p c \<le> hi"
  proof -
    have "0 \<le> \<bar>ch\<bar> * rand 0.1 1.5 (rs (k + 1))" by (rule rand_pad_nonneg) (simp add: assms(1))
    then have "max p c \<le> max p c + \<bar>ch\<bar> * rand 0.1 1.5 (rs (k + 1))"
      by linarith
    then have "round4 (max p c) \<le> hi"
      unfolding hi_def by (rule round4_mono)
    then show ?thesis by (simp add: round4_max assms(2) c)
  qed
  have lo: "lo \<le> min p c"
  proof -
    have "0 \<le> \<bar>ch\<bar> * rand 0.1 1.5 (rs (k + 2))" by (rule rand_pad_nonneg) (simp add: assms(1))
    then have "min p c - \<bar>ch\<bar> * rand 0.1 1.5 (rs (k + 2)) \<le> min p c"
      by linarith
    then have "lo \<le> round4 (min p c)"
      unfolding lo_def by (rule round4_mono)
    then show ?thesis by (simp add: round4_min assms(2) c)
  qed
  define b where "b = \<lparr>bar_time = (now - (int count - int i) * iv) div 1000, bar_open = p,
      bar_high = hi, bar_low = lo, bar_close = c,
      bar_volume = round2 (rand 100 50000 (rs (k + 3))
         * (if base > 1000 then 0.1 else if base > 10 then 10 else 1000))\<rparr>"
  have "generateCandles_body rs now base vol count iv (cs, p, k) i = (cs @ [b], c, k + 4)"
    unfolding b_def hi_def lo_def c_def ch_def
    by (simp add: generateCandles_body_def Let_def split del: if_split)
  with assms(3) have "cs' = cs @ [b]" and "p' = c"
    by simp_all
  moreover have "ohlc_ok b"
    using hi lo by (simp add: ohlc_ok_def b_def)
  ultimately show ?thesis using c by blast
qed

lemma candles_loop_ok:
  assumes "\<forall>n. 0 \<le> rs n" and "round4 p = p"
  shows "\<exists>bs. fst (foldl (generateCandles_body rs now base vol count iv) (cs, p, k) ds) = cs @ bs
           \<and> (\<forall>b \<in> set bs. ohlc_ok b)"
  using assms(2)
proof (induction ds arbitrary: cs p k)
  case Nil
  then show ?case by simp
next
  case (Cons d ds)
  obtain cs' p' k' where st: "generateCandles_body rs now base vol count iv (cs, p, k) d = (cs', p', k')"
    by (metis prod_cases3)
  from candles_body_ok [OF assms(1) Cons.prems st] obtain b
    where b: "cs' = cs @ [b]" "ohlc_ok b" "round4 p' = p'"
    by blast
  from Cons.IH [OF b(3), of cs' k'] obtain bs where
    "fst (foldl (generateCandles_body rs now base vol count iv) (cs', p', k') ds) = cs' @ bs"
    "\<forall>b \<in> set bs. ohlc_ok b" by blast
  with b(1,2) have "fst (foldl (generateCandles_body rs now base vol count iv) (cs, p, k) (d # ds)) = cs @ (b # bs)
      \<and> (\<forall>x \<in> set (b # bs). ohlc_ok x)"
    by (simp add: st)
  then show ?case by blast
qed

lemma candles_loop_prefix:
  "\<exists>bs. fst (foldl (generateCandles_body rs now base vol count iv) (cs, p, k) ds) = cs @ bs
     \<and> length bs = length ds"
proof (induction ds arbitrary: cs p k)
  case Nil
  then show ?case by simp
next
  case (Cons d ds)
  obtain b c where st: "generateCandles_body rs now base vol count iv (cs, p, k) d = (cs @ [b], c, k + 4)"
    by (simp add: generateCandles_body_def Let_def)
  from Cons.IH [of "cs @ [b]" c "k + 4"] obtain bs where
    "fst (foldl (generateCandles_body rs now base vol count iv) (cs @ [b], c, k + 4) ds) = (cs @ [b]) @ bs"
    "length bs = length ds" by blast
  then show ?case by (simp add: st)
qed

lemma generateCandles_fst:
  "fst (generateCandles rs k now base count iv) =
     fst (foldl (generateCandles_body rs now base
            (if base > 1000 then 0.008 else if base > 10 then 0.012 else 0.02) count iv)
          ([], base * rand 0.85 0.95 (rs k), Suc k) [0..<count])"
  by (simp add: generateCandles_def Let_def case_prod_beta split del: if_split)

lemma generateCandles_length: "length (fst (generateCandles rs k now base count iv)) = count"
  using candles_loop_prefix [of rs now base _ count iv "[]" _ _ "[0..<count]"]
  unfolding generateCandles_fst by auto

text \<open>
  Every bar after the first satisfies the invariant, for draws that are not negative: it
  opens at the rounded close of the bar before it.
\<close>

lemma generateCandles_tl_ok:
  assumes "\<forall>n. 0 \<le> rs n"
  shows "\<forall>b \<in> set (tl (fst (generateCandles rs k now base count iv))). ohlc_ok b"
proof (cases count)
  case 0
  then show ?thesis by (simp add: generateCandles_fst)
next
  case (Suc m)
  define vol :: real where "vol = (if base > 1000 then 0.008 else if base > 10 then 0.012 else 0.02)"
  define p0 where "p0 = base * rand 0.85 0.95 (rs k)"
  obtain b c where st: "generateCandles_body rs now base vol count iv ([], p0, Suc k) 0 = ([b], c, Suc k + 4)"
      and c: "round4 c = c"
    by (simp add: generateCandles_body_def Let_def round4_round4)
  have up: "[0..<count] = 0 # [1..<count]" using Suc by (simp add: upt_conv_Cons)
  obtain bs where bs: "fst (foldl (generateCandles_body rs now base vol count iv) ([b], c, Suc k + 4) [1..<count]) = [b] @ bs"
    "\<forall>x \<in> set bs. ohlc_ok x"
    using candles_loop_ok [OF assms c] by blast
  have "fst (generateCandles rs k now base count iv) = b # bs"
    unfolding generateCandles_fst vol_def [symmetric] p0_def [symmetric] up
    using bs(1) by (simp add: st)
  with bs(2) show ?thesis by simp
qed

lemma generateCandles_hd:
  assumes "0 < count"
  shows "hd (fst (generateCandles rs k now base count iv)) =
     hd (fst (generateCandles_body rs now base
            (if base > 1000 then 0.008 else if base > 10 then 0.012 else 0.02) count iv
            ([], base * rand 0.85 0.95 (rs k), Suc k) 0))"
proof -
  define vol :: real where "vol = (if base > 1000 then 0.008 else if base > 10 then 0.012 else 0.02)"
  define p0 where "p0 = base * rand 0.85 0.95 (rs k)"
  obtain b c where st: "generateCandles_body rs now base vol count iv ([], p0, Suc k) 0 = ([b], c, Suc k + 4)"
    by (simp add: generateCandles_body_def Let_def)
  have up: "[0..<count] = 0 # [1..<count]" using assms by (simp add: upt_conv_Cons)
  obtain bs where bs: "fst (foldl (generateCandles_body rs now base vol count iv) ([b], c, Suc k + 4) [1..<count]) = [b] @ bs"
    using candles_loop_prefix by blast
  have "fst (generateCandles rs k now base count iv) = b # bs"
    unfolding generateCandles_fst vol_def [symmetric] p0_def [symmetric] up
    using bs(1) by (simp add: st)
  then show ?thesis
    unfolding vol_def [symmetric] p0_def [symmetric] by (simp add: st)
qed

lemma first_bar_open: "412 / 100 * rand 0.85 0.95 (draws_first_bar 0) = 37080412 / 10000000"
  by (simp add: draws_first_bar_def rand_def)

lemma first_bar_draws:
  "draws_first_bar (Suc 0) = 4798 / 10000"
  "draws_first_bar (Suc 0 + 1) = 1 / 2"
  "draws_first_bar (Suc 0 + 2) = 1 / 2"
  "draws_first_bar (Suc 0 + 3) = 1 / 2"
  by (simp_all add: draws_first_bar_def)

lemma first_bar_body:
  "fst (generateCandles_body draws_first_bar now (412 / 100) (2 / 100) 500 300000
          ([], 37080412 / 10000000, Suc 0) 0)
   = [\<lparr>bar_time = (now - 150000000) div 1000, bar_open = 37080412 / 10000000,
       bar_high = 3708 / 1000, bar_low = 3708 / 1000, bar_close = 3708 / 1000,
       bar_volume = 25050000\<rparr>]"
  unfolding generateCandles_body_def Let_def prod.case first_bar_draws
  by (simp add: round4_def round2_def rand_def)

lemma first_bar:
  "hd (fst (generateCandles draws_first_bar 0 now (412 / 100) 500 (5 * 60 * 1000))) =
     \<lparr>bar_time = (now - 150000000) div 1000, bar_open = 37080412 / 10000000,
      bar_high = 3708 / 1000, bar_low = 3708 / 1000, bar_close = 3708 / 1000,
      bar_volume = 25050000\<rparr>"
proof -
  have v: "(if (412 / 100 :: real) > 1000 then 0.008
            else if (412 / 100 :: real) > 10 then 0.012 else 0.02) = (2 / 100 :: real)"
    by simp
  have "hd (fst (generateCandles draws_first_bar 0 now (412 / 100) 500 (5 * 60 * 1000))) =
     hd (fst (generateCandles_body draws_first_bar now (412 / 100) (2 / 100) 500 300000
            ([], 37080412 / 10000000, Suc 0) 0))"
    using generateCandles_hd [of 500 draws_first_bar 0 now "412 / 100" "5 * 60 * 1000"]
    unfolding v first_bar_open by simp
  then show ?thesis by (simp only: first_bar_body list.sel)
qed

subsection \<open>Trade ledger\<close>

lemma body_status:
  "trade.status (fst (generateTrades_body rs now symbols priceMap lev prefix i k))
     = (if i < openCount prefix then ''open'' else ''closed'')"
  by (simp add: generateTrades_body_def Let_def)

lemma body_next:
  "snd (generateTrades_body rs now symbols priceMap lev prefix i k)
     = (if i < openCount prefix then k else Suc k)
       + (if rs ((if i < openCount prefix then k else Suc k) + 2) < 0.35 then 3 else 4) + 10"
  by (simp add: generateTrades_body_def Let_def)

lemma body_entry_time:
  "trade.entry_time (fst (generateTrades_body rs now symbols priceMap lev prefix i k))
     = now - randInt 1 45 (rs (snd (generateTrades_body rs now symbols priceMap lev prefix i k) - 8)) * DAY_MS
           - randInt 0 23 (rs (snd (generateTrades_body rs now symbols priceMap lev prefix i k) - 7)) * HOUR_MS"
  unfolding body_next
  by (simp add: generateTrades_body_def Let_def)

lemma trades_step_eq:
  "generateTrades_step rs now symbols priceMap lev prefix (ts, k) i
     = (ts @ [fst (generateTrades_body rs now symbols priceMap lev prefix i k)],
        snd (generateTrades_body rs now symbols priceMap lev prefix i k))"
  by (simp add: generateTrades_step_def case_prod_beta)

lemma trades_loop_status:
  "map trade.status (fst (foldl (generateTrades_step rs now symbols priceMap lev prefix) (ts, k) ds))
     = map trade.status ts @ map (\<lambda>i. if i < openCount prefix then ''open'' else ''closed'') ds"
proof (induction ds arbitrary: ts k)
  case Nil
  then show ?case by simp
next
  case (Cons d ds)
  show ?case
    unfolding foldl_Cons trades_step_eq Cons.IH
    by (simp add: body_status)
qed

lemma count_below: "length (filter (\<lambda>i. i < m) [0..<n]) = min m n"
  by (induction n) auto

lemma length_filter_status:
  "length (filter (\<lambda>t. trade.status t = s) ts) = length (filter (\<lambda>x. x = s) (map trade.status ts))"
  by (induction ts) auto

lemma generateTrades_fst:
  "fst (generateTrades rs k now symbols priceMap lev count prefix)
    = sort_key (\<lambda>t. - trade.entry_time t)
        (fst (foldl (generateTrades_step rs now symbols priceMap lev prefix) ([], k) [0..<count]))"
  by (simp add: generateTrades_def case_prod_beta)

lemma filter_sort_key_length:
  "length (filter P (sort_key f xs)) = length (filter P xs)"
  by (simp add: filter_sort)

text \<open>
  Claim C1, as the code has it. For every run with \<open>count\<close> at least the open count of
  the class (3 for the prefix C, 2 otherwise), exactly that many records of the returned
  list are open, the list has \<open>count\<close> records and it is sorted by entry time,
  newest first. Where the open records stand in it depends on the entry times drawn.
\<close>

theorem generateTrades_open_count:
  assumes "openCount prefix \<le> count"
  shows "length (filter (\<lambda>t. trade.status t = ''open'')
            (fst (generateTrades rs k now symbols priceMap lev count prefix))) = openCount prefix
    \<and> length (fst (generateTrades rs k now symbols priceMap lev count prefix)) = count
    \<and> sorted_wrt (\<lambda>a b. trade.entry_time b \<le> trade.entry_time a)
         (fst (generateTrades rs k now symbols priceMap lev count prefix))"
proof -
  define ts where
    "ts = fst (foldl (generateTrades_step rs now symbols priceMap lev prefix) ([], k) [0..<count])"
  have st: "map trade.status ts
      = map (\<lambda>i. if i < openCount prefix then ''open'' else ''closed'') [0..<count]"
    unfolding ts_def trades_loop_status by simp
  have "length (filter (\<lambda>t. trade.status t = ''open'') ts)
      = length (filter (\<lambda>i. i < openCount prefix) [0..<count])"
    unfolding length_filter_status st filter_map
    by (simp add: comp_def cong: filter_cong)
  then have n: "length (filter (\<lambda>t. trade.status t = ''open'') ts) = openCount prefix"
    using assms by (simp add: count_below)
  have "length (map trade.status ts) = count" unfolding st by simp
  then have l: "length ts = count" by simp
  have "sorted (map (\<lambda>t. - trade.entry_time t) (sort_key (\<lambda>t. - trade.entry_time t) ts))"
    by (rule sorted_sort_key)
  then have s: "sorted_wrt (\<lambda>a b. trade.entry_time b \<le> trade.entry_time a)
      (sort_key (\<lambda>t. - trade.entry_time t) ts)"
    by (simp add: sorted_map)
  show ?thesis
    unfolding generateTrades_fst ts_def [symmetric]
    using n l s by (simp add: filter_sort_key_length)
qed

lemma upt4: "[0..<4] = [0, 1, 2, 3]"
  by code_simp

lemma late_close_unsorted:
  "fst (foldl (generateTrades_step draws_late_close 1767225600000 CRYPTO_SYMBOLS CRYPTO_PRICES 15 ''C'')
         ([], 0) [0..<4])
   = [fst (generateTrades_body draws_late_close 1767225600000 CRYPTO_SYMBOLS CRYPTO_PRICES 15 ''C'' 0 0),
      fst (generateTrades_body draws_late_close 1767225600000 CRYPTO_SYMBOLS CRYPTO_PRICES 15 ''C'' (Suc 0) 14),
      fst (generateTrades_body draws_late_close 1767225600000 CRYPTO_SYMBOLS CRYPTO_PRICES 15 ''C'' 2 28),
      fst (generateTrades_body draws_late_close 1767225600000 CRYPTO_SYMBOLS CRYPTO_PRICES 15 ''C'' 3 42)]"
  unfolding upt4 foldl_Cons foldl_Nil trades_step_eq body_next
  by (simp add: openCount_def draws_late_close_def)

lemma late_close_times:
  "trade.entry_time (fst (generateTrades_body draws_late_close 1767225600000 CRYPTO_SYMBOLS CRYPTO_PRICES 15 ''C'' 0 0)) = 1763254800000"
  "trade.entry_time (fst (generateTrades_body draws_late_close 1767225600000 CRYPTO_SYMBOLS CRYPTO_PRICES 15 ''C'' (Suc 0) 14)) = 1763254800000"
  "trade.entry_time (fst (generateTrades_body draws_late_close 1767225600000 CRYPTO_SYMBOLS CRYPTO_PRICES 15 ''C'' 2 28)) = 1763254800000"
  "trade.entry_time (fst (generateTrades_body draws_late_close 1767225600000 CRYPTO_SYMBOLS CRYPTO_PRICES 15 ''C'' 3 42)) = 1767139200000"
  unfolding body_entry_time body_next
  by (simp_all add: openCount_def draws_late_close_def randInt_def rand_def DAY_MS_def HOUR_MS_def)

text \<open>
  The open records need not be the first ones: here the closed record is the newest, and
  the sort puts it first.
\<close>

theorem open_trades_not_first_counterexample:
  "map trade.status
     (fst (generateTrades draws_late_close 0 1767225600000 CRYPTO_SYMBOLS CRYPTO_PRICES 15 4 ''C''))
   = [''closed'', ''open'', ''open'', ''open'']"
  unfolding generateTrades_fst late_close_unsorted
  by (simp add: late_close_times body_status openCount_def)

theorem generateTrades_open_count_witness:
  "openCount ''C'' \<le> 4
   \<and> length (filter (\<lambda>t. trade.status t = ''open'')
        (fst (generateTrades draws_late_close 0 1767225600000 CRYPTO_SYMBOLS CRYPTO_PRICES 15 4 ''C''))) = 3
   \<and> length (fst (generateTrades draws_late_close 0 1767225600000 CRYPTO_SYMBOLS CRYPTO_PRICES 15 4 ''C'')) = 4"
proof -
  have h: "openCount ''C'' \<le> 4" by (simp add: openCount_def)
  from generateTrades_open_count [OF h, of draws_late_close 0 1767225600000 CRYPTO_SYMBOLS CRYPTO_PRICES 15]
  show ?thesis using h by (simp add: openCount_def)
qed

subsection \<open>Candle cache\<close>

lemma toUpperCase_char_not_lower: "\<not> is_lower (toUpperCase_char c)"
  by (auto simp: is_lower_def toUpperCase_char_def)

lemma toUpperCase_no_lower: "list_all (\<lambda>c. \<not> is_lower c) (toUpperCase s)"
  by (simp add: toUpperCase_def list_all_iff toUpperCase_char_not_lower)

lemma prototype_keys_lower: "list_all (list_ex is_lower) Object_prototype_keys"
  by (simp add: Object_prototype_keys_def is_lower_def)

lemma toUpperCase_not_inherited: "toUpperCase s \<notin> set Object_prototype_keys"
proof
  assume "toUpperCase s \<in> set Object_prototype_keys"
  with prototype_keys_lower have "list_ex is_lower (toUpperCase s)"
    by (simp add: list_all_iff)
  with toUpperCase_no_lower [of s] show False
    by (auto simp: list_all_iff list_ex_iff)
qed

text \<open>The symbol of the candles route is in upper case, for every address.\<close>

lemma candles_symbol_not_inherited: "candles_symbol u \<notin> set Object_prototype_keys"
  unfolding candles_symbol_def by (rule toUpperCase_not_inherited)

lemma getCandles_cached:
  "cache smb = Some bars \<Longrightarrow> getCandlesForSymbol rs now smb (cache, k) = (Bars bars, cache, k)"
  by (simp add: getCandlesForSymbol_def)

lemma getCandles_fresh:
  assumes "cache smb = None" and "smb \<notin> set Object_prototype_keys"
  shows "getCandlesForSymbol rs now smb (cache, k) =
     (Bars (fst (generateCandles rs k now (or_else (CRYPTO_PRICES smb) (or_else (STOCK_PRICES smb) 100)) 500 (5 * 60 * 1000))),
      cache(smb \<mapsto> fst (generateCandles rs k now (or_else (CRYPTO_PRICES smb) (or_else (STOCK_PRICES smb) 100)) 500 (5 * 60 * 1000))),
      snd (generateCandles rs k now (or_else (CRYPTO_PRICES smb) (or_else (STOCK_PRICES smb) 100)) 500 (5 * 60 * 1000)))"
  using assms by (simp add: getCandlesForSymbol_def Let_def case_prod_beta)



lemma getCandles_keeps_lengths:
  assumes "\<forall>bars \<in> ran cache. length bars = 500"
  shows "\<forall>bars \<in> ran (fst (snd (getCandlesForSymbol rs now smb (cache, k)))). length bars = 500"
proof (cases "cache smb")
  case (Some bars)
  then show ?thesis using assms by (simp add: getCandles_cached)
next
  case None
  show ?thesis
  proof (cases "smb \<in> set Object_prototype_keys")
    case True
    with None assms show ?thesis by (simp add: getCandlesForSymbol_def)
  next
    case False
    have "ran (cache(smb \<mapsto> b)) = insert b (ran cache)" for b
      using None by simp
    with assms show ?thesis
      unfolding getCandles_fresh [where cache = cache and smb = smb, OF None False]
      by (simp add: generateCandles_length)
  qed
qed


text \<open>
  A direct call with the name of an inherited member returns that member and no series;
  the candles route cannot make such a call.
\<close>

lemma getCandles_inherited:
  "fst (getCandlesForSymbol rs now ''constructor'' (Map.empty, k)) = Inherited ''constructor''"
  by (simp add: getCandlesForSymbol_def Object_prototype_keys_def)

subsection \<open>The first bar of a series\<close>

text \<open>
  Claim C4 at a concrete series. The symbol SUI has the reference price 4.12, so a
  request for its candles on an empty cache generates the series below. With the start
  factor 0.90001 the first open is 3.7080412, which is not a multiple of 0.0001, and with a
  first change of 0 the close and the high are both rounded to 3.7080: the high of the
  first bar is below its open. (Every later bar opens at a rounded close and satisfies the
  invariant, lemma \<open>generateCandles_tl_ok\<close>.)
\<close>

theorem first_candle_breaks_invariant:
  "fst (getCandlesForSymbol draws_first_bar now ''SUI'' (Map.empty, 0))
     = Bars (fst (generateCandles draws_first_bar 0 now (412 / 100) 500 (5 * 60 * 1000)))
   \<and> bar_open (hd (fst (generateCandles draws_first_bar 0 now (412 / 100) 500 (5 * 60 * 1000))))
       = 37080412 / 10000000
   \<and> bar_close (hd (fst (generateCandles draws_first_bar 0 now (412 / 100) 500 (5 * 60 * 1000))))
       = 3708 / 1000
   \<and> bar_high (hd (fst (generateCandles draws_first_bar 0 now (412 / 100) 500 (5 * 60 * 1000))))
       = 3708 / 1000
   \<and> \<not> ohlc_ok (hd (fst (generateCandles draws_first_bar 0 now (412 / 100) 500 (5 * 60 * 1000))))"
proof -
  have p: "or_else (CRYPTO_PRICES ''SUI'') (or_else (STOCK_PRICES ''SUI'') 100) = 412 / 100"
    by (simp add: or_else_def CRYPTO_PRICES_def)
  have "fst (getCandlesForSymbol draws_first_bar now ''SUI'' (Map.empty, 0))
     = Bars (fst (generateCandles draws_first_bar 0 now (412 / 100) 500 (5 * 60 * 1000)))"
    by (simp add: getCandles_fresh Object_prototype_keys_def p)
  then show ?thesis
    unfolding first_bar by (simp add: ohlc_ok_def)
qed

subsection \<open>Monitor feeds\<close>

lemma alerts_loop_length:
  "length (fst (foldl (generateAlerts_body rs now) (as, k) ds)) = length as + length ds"
  by (induction ds arbitrary: as k) (simp_all add: generateAlerts_body_def Let_def)


lemma generateAlerts_length: "length (fst (generateAlerts rs k now count)) = iterations count"
  using alerts_loop_length [of rs now "[]" k "[0..<iterations count]"]
  by (simp add: generateAlerts_def case_prod_beta)


lemma monitor_alerts_length:
  "length (fst (monitor_alerts rs k now q))
     = (case parseInt (param_or q ''20'') of None \<Rightarrow> 0 | Some n \<Rightarrow> nat (min n 20))"
  by (simp add: monitor_alerts_def generateAlerts_length iterations_def js_min_def
      split: option.split)




lemma parseInt_0: "parseInt ''0'' = Some 0"
  by code_simp

lemma parseInt_examples:
  "parseInt '' -0x1F,'' = Some (- 31)"
  "parseInt ''abc'' = None"
  "parseInt ''0x'' = None"
  "parseInt ''12.5'' = Some 12"
  by code_simp+


subsection \<open>Dispatch\<close>





text \<open>
  Claim C7, as the code has it. For every intercepted request whose method is not POST,
  PUT or DELETE and whose path starts with \<^verbatim>\<open>/api/\<close> (or is \<^verbatim>\<open>/status\<close>) but matches no
  route, the answer has status 200 and the body
  \<^verbatim>\<open>{success: true, data: null, demo: true}\<close>; the warning is written and the state is
  unchanged.
\<close>

theorem unmatched_api_fallback:
  assumes "\<not> passes_through (url r)" and "\<not> mutating (method_of r)"
    and "startsWith (pathname r) ''/api/'' \<or> pathname r = ''/status''"
    and "find_route (MOCK_ROUTES rs now) r = None"
  shows "fetch rs now r w
     = (Respond 200 (JObj [(''success'', JBool True), (''data'', JNull), (''demo'', JBool True)])
          False None (Some Warning), w)"
  using assms by (simp add: fetch_def fetch_with_def)

lemma get_unknown_unmatched: "find_route (MOCK_ROUTES rs now) get_unknown = None"
  by (simp add: find_route_def MOCK_ROUTES_def get_unknown_def startsWith_def)

lemma post_unknown_unmatched: "find_route (MOCK_ROUTES rs now) post_unknown = None"
  by (simp add: find_route_def MOCK_ROUTES_def post_unknown_def startsWith_def)

theorem unmatched_api_fallback_witness:
  "fetch (\<lambda>_. 1 / 2) 0 get_unknown (Map.empty, 0)
     = (Respond 200 (JObj [(''success'', JBool True), (''data'', JNull), (''demo'', JBool True)])
          False None (Some Warning), (Map.empty, 0))"
proof -
  have a: "\<not> passes_through (url get_unknown)"
    by (simp add: get_unknown_def passes_through_def)
  have b: "\<not> mutating (method_of get_unknown)"
    by (simp add: get_unknown_def mutating_def method_of_def)
  have c: "startsWith (pathname get_unknown) ''/api/'' \<or> pathname get_unknown = ''/status''"
    by (simp add: get_unknown_def startsWith_def)
  from unmatched_api_fallback [OF a b c get_unknown_unmatched] show ?thesis .
qed

text \<open>
  With the method POST the same path is answered by the acknowledgement of claim C2,
  whose body has no member \<^verbatim>\<open>data\<close>.
\<close>

theorem unmatched_post_counterexample:
  "startsWith (pathname post_unknown) ''/api/''
   \<and> find_route (MOCK_ROUTES (\<lambda>_. 1 / 2) 0) post_unknown = None
   \<and> body (fst (fetch (\<lambda>_. 1 / 2) 0 post_unknown (Map.empty, 0)))
       = JObj [(''success'', JBool True), (''demo'', JBool True)]
   \<and> body (fst (fetch (\<lambda>_. 1 / 2) 0 post_unknown (Map.empty, 0)))
       \<noteq> JObj [(''success'', JBool True), (''data'', JNull), (''demo'', JBool True)]"
proof -
  have a: "\<not> passes_through (url post_unknown)"
    by (simp add: post_unknown_def passes_through_def)
  have b: "mutating (method_of post_unknown)" "pathname post_unknown \<noteq> ''/api/dashboard/settings''"
    by (simp_all add: post_unknown_def mutating_def method_of_def)
  have c: "startsWith (pathname post_unknown) ''/api/''"
    by (simp add: post_unknown_def startsWith_def)
  show ?thesis
    using a b c post_unknown_unmatched by (simp add: fetch_def fetch_with_def)
qed

text \<open>
  The routes before the drift route that can match a path containing \<^verbatim>\<open>/drift\<close> are the
  three prefix routes; every other earlier route compares the path with a fixed string.
\<close>

lemma drift_route:
  assumes "string_includes p ''/drift''"
    and "\<not> startsWith p ''/api/candles/''" and "\<not> startsWith p ''/api/monitor/alerts''"
    and "\<not> startsWith p ''/api/monitor/errors''" and "pathname r = p"
  shows "\<exists>m. find_route (MOCK_ROUTES rs now) r = Some (m, static (drift_payload now))"
  using assms
  by (auto simp: find_route_def MOCK_ROUTES_def)

lemma kill_switch_route:
  assumes "string_includes p ''/kill-switch'' \<or> string_includes p ''/kill_switch''"
    and "\<not> string_includes p ''/drift''"
    and "\<not> startsWith p ''/api/candles/''" and "\<not> startsWith p ''/api/monitor/alerts''"
    and "\<not> startsWith p ''/api/monitor/errors''" and "pathname r = p"
  shows "\<exists>m. find_route (MOCK_ROUTES rs now) r = Some (m, static kill_switch_payload)"
  using assms
  by (auto simp: find_route_def MOCK_ROUTES_def)

lemma fetch_matched:
  assumes "\<not> passes_through (url r)" and "\<not> mutating (method_of r)"
    and "find_route (MOCK_ROUTES rs now) r = Some (m, static j)"
  shows "fetch rs now r w = (Respond 200 j True (Some (randInt 20 80 (rs (snd w)))) None, (fst w, Suc (snd w)))"
  using assms by (simp add: fetch_def fetch_with_def static_def case_prod_beta)

lemma xhr_matched:
  assumes "find_route (MOCK_ROUTES rs now) r = Some (m, static j)"
  shows "xhr_body rs now r w = (j, w)"
  using assms by (simp add: xhr_body_def static_def)

text \<open>
  Claim C8, as the code has it. Let the path start with none of \<^verbatim>\<open>/api/candles/\<close>,
  \<^verbatim>\<open>/api/monitor/alerts\<close> and \<^verbatim>\<open>/api/monitor/errors\<close>. If it contains \<^verbatim>\<open>/drift\<close>, an
  intercepted \<^verbatim>\<open>fetch\<close> whose method is not POST, PUT or DELETE is answered with status
  200 and the fixed no-drift payload, and the XMLHttpRequest interceptor answers with that
  payload whatever the method is. If it contains \<^verbatim>\<open>/kill-switch\<close> or \<^verbatim>\<open>/kill_switch\<close>
  and not \<^verbatim>\<open>/drift\<close>, the same holds with the fixed inactive payload.
\<close>

theorem drift_kill_switch_inactive:
  assumes "\<not> startsWith (pathname r) ''/api/candles/''"
    and "\<not> startsWith (pathname r) ''/api/monitor/alerts''"
    and "\<not> startsWith (pathname r) ''/api/monitor/errors''"
  shows "(string_includes (pathname r) ''/drift'' \<longrightarrow>
            (\<not> passes_through (url r) \<and> \<not> mutating (method_of r) \<longrightarrow>
               fetch rs now r w
                 = (Respond 200 (drift_payload now) True (Some (randInt 20 80 (rs (snd w)))) None,
                    (fst w, Suc (snd w))))
          \<and> xhr_body rs now r w = (drift_payload now, w))
       \<and> ((string_includes (pathname r) ''/kill-switch'' \<or> string_includes (pathname r) ''/kill_switch'')
           \<and> \<not> string_includes (pathname r) ''/drift'' \<longrightarrow>
            (\<not> passes_through (url r) \<and> \<not> mutating (method_of r) \<longrightarrow>
               fetch rs now r w
                 = (Respond 200 kill_switch_payload True (Some (randInt 20 80 (rs (snd w)))) None,
                    (fst w, Suc (snd w))))
          \<and> xhr_body rs now r w = (kill_switch_payload, w))"
proof -
  have d: "fetch rs now r w
        = (Respond 200 (drift_payload now) True (Some (randInt 20 80 (rs (snd w)))) None,
           (fst w, Suc (snd w)))"
    if "string_includes (pathname r) ''/drift''" "\<not> passes_through (url r)" "\<not> mutating (method_of r)"
    using drift_route [OF that(1) assms refl, of rs now] fetch_matched [OF that(2,3)] by blast
  have dx: "xhr_body rs now r w = (drift_payload now, w)"
    if "string_includes (pathname r) ''/drift''"
    using drift_route [OF that(1) assms refl, of rs now] xhr_matched by blast
  have k: "fetch rs now r w
        = (Respond 200 kill_switch_payload True (Some (randInt 20 80 (rs (snd w)))) None,
           (fst w, Suc (snd w)))"
    if "string_includes (pathname r) ''/kill-switch'' \<or> string_includes (pathname r) ''/kill_switch''"
      "\<not> string_includes (pathname r) ''/drift''"
      "\<not> passes_through (url r)" "\<not> mutating (method_of r)"
    using kill_switch_route [OF that(1,2) assms refl, of rs now] fetch_matched [OF that(3,4)] by blast
  have kx: "xhr_body rs now r w = (kill_switch_payload, w)"
    if "string_includes (pathname r) ''/kill-switch'' \<or> string_includes (pathname r) ''/kill_switch''"
      "\<not> string_includes (pathname r) ''/drift''"
    using kill_switch_route [OF that(1,2) assms refl, of rs now] xhr_matched by blast
  show ?thesis using d dx k kx by blast
qed

theorem drift_kill_switch_inactive_witness:
  "fetch (\<lambda>_. 1 / 2) 0 get_drift (Map.empty, 0)
     = (Respond 200 (drift_payload 0) True (Some 50) None, (Map.empty, 1))
   \<and> fetch (\<lambda>_. 1 / 2) 0 get_kill_switch (Map.empty, 0)
     = (Respond 200 kill_switch_payload True (Some 50) None, (Map.empty, 1))
   \<and> xhr_body (\<lambda>_. 1 / 2) 0 post_kill_switch (Map.empty, 0) = (kill_switch_payload, (Map.empty, 0))"
proof -
  have a: "\<not> startsWith (pathname get_drift) ''/api/candles/''"
    "\<not> startsWith (pathname get_drift) ''/api/monitor/alerts''"
    "\<not> startsWith (pathname get_drift) ''/api/monitor/errors''"
    "string_includes (pathname get_drift) ''/drift''"
    "\<not> passes_through (url get_drift)" "\<not> mutating (method_of get_drift)"
    by (simp_all add: get_drift_def startsWith_def passes_through_def mutating_def method_of_def)
  have b: "\<not> startsWith (pathname get_kill_switch) ''/api/candles/''"
    "\<not> startsWith (pathname get_kill_switch) ''/api/monitor/alerts''"
    "\<not> startsWith (pathname get_kill_switch) ''/api/monitor/errors''"
    "string_includes (pathname get_kill_switch) ''/kill-switch''"
    "\<not> string_includes (pathname get_kill_switch) ''/drift''"
    "\<not> passes_through (url get_kill_switch)" "\<not> mutating (method_of get_kill_switch)"
    by (simp_all add: get_kill_switch_def startsWith_def passes_through_def mutating_def method_of_def)
  have c: "\<not> startsWith (pathname post_kill_switch) ''/api/candles/''"
    "\<not> startsWith (pathname post_kill_switch) ''/api/monitor/alerts''"
    "\<not> startsWith (pathname post_kill_switch) ''/api/monitor/errors''"
    "string_includes (pathname post_kill_switch) ''/kill-switch''"
    "\<not> string_includes (pathname post_kill_switch) ''/drift''"
    by (simp_all add: post_kill_switch_def startsWith_def)
  have e: "randInt 20 80 (1 / 2) = 50" by (simp add: randInt_def rand_def)
  from drift_kill_switch_inactive [OF a(1-3), of "\<lambda>_. 1 / 2" 0 "(Map.empty, 0)"]
       drift_kill_switch_inactive [OF b(1-3), of "\<lambda>_. 1 / 2" 0 "(Map.empty, 0)"]
       drift_kill_switch_inactive [OF c(1-3), of "\<lambda>_. 1 / 2" 0 "(Map.empty, 0)"]
       a(4-) b(4-) c(4-) e
  show ?thesis by simp
qed

lemma monitor_alerts_handler_body:
  "fst (monitor_alerts_handler rs now r w)
     = JObj [(''alerts'', JArr (map alert_json (fst (monitor_alerts rs (snd w) now (limit r)))))]"
  by (simp add: monitor_alerts_handler_def case_prod_beta)

text \<open>
  A POST to the kill switch through \<^verbatim>\<open>fetch\<close> is answered by the acknowledgement of
  claim C2, and a path under the alerts route that contains \<^verbatim>\<open>/drift\<close> by the alerts
  feed.
\<close>

theorem kill_switch_post_counterexample:
  "string_includes (pathname post_kill_switch) ''/kill-switch''
   \<and> http_method post_kill_switch = Some ''POST''
   \<and> fst (fetch (\<lambda>_. 1 / 2) 0 post_kill_switch (Map.empty, 0))
       = Respond 200 (JObj [(''success'', JBool True), (''demo'', JBool True)]) False None (Some Toast)
   \<and> body (fst (fetch (\<lambda>_. 1 / 2) 0 post_kill_switch (Map.empty, 0))) \<noteq> kill_switch_payload
   \<and> string_includes (pathname get_alerts_drift) ''/drift''
   \<and> http_method get_alerts_drift = None
   \<and> body (fst (fetch (\<lambda>_. 1 / 2) 0 get_alerts_drift (Map.empty, 0))) = JObj [(''alerts'', JArr [])]
   \<and> body (fst (fetch (\<lambda>_. 1 / 2) 0 get_alerts_drift (Map.empty, 0))) \<noteq> drift_payload 0"
proof -
  have a: "\<not> passes_through (url post_kill_switch)" "mutating (method_of post_kill_switch)"
    "pathname post_kill_switch \<noteq> ''/api/dashboard/settings''"
    "string_includes (pathname post_kill_switch) ''/kill-switch''"
    "http_method post_kill_switch = Some ''POST''"
    by (simp_all add: post_kill_switch_def passes_through_def mutating_def method_of_def)
  then have f: "fst (fetch (\<lambda>_. 1 / 2) 0 post_kill_switch (Map.empty, 0))
       = Respond 200 (JObj [(''success'', JBool True), (''demo'', JBool True)]) False None (Some Toast)"
    by (simp add: fetch_def fetch_with_def)
  have b: "\<not> passes_through (url get_alerts_drift)" "\<not> mutating (method_of get_alerts_drift)"
    "string_includes (pathname get_alerts_drift) ''/drift''"
    "http_method get_alerts_drift = None" "limit get_alerts_drift = Some ''0''"
    by (simp_all add: get_alerts_drift_def passes_through_def mutating_def method_of_def)
  have r: "find_route (MOCK_ROUTES (\<lambda>_. 1 / 2) 0) get_alerts_drift
      = Some (\<lambda>p u. startsWith p ''/api/monitor/alerts'', monitor_alerts_handler (\<lambda>_. 1 / 2) 0)"
    by (simp add: find_route_def MOCK_ROUTES_def get_alerts_drift_def startsWith_def)
  have z: "fst (monitor_alerts (\<lambda>_. 1 / 2) 0 0 (Some ''0'')) = []"
    using monitor_alerts_length [of "\<lambda>_. 1 / 2" 0 0 "Some ''0''"]
    by (simp add: param_or_def parseInt_0)
  have g: "body (fst (fetch (\<lambda>_. 1 / 2) 0 get_alerts_drift (Map.empty, 0))) = JObj [(''alerts'', JArr [])]"
    using monitor_alerts_handler_body [of "\<lambda>_. 1 / 2" 0 get_alerts_drift "(Map.empty, 0)"]
    by (simp add: fetch_def fetch_with_def b r z case_prod_beta)
  show ?thesis
    using a(4,5) b(3,4) f g by (simp add: kill_switch_payload_def drift_payload_def)
qed

subsection \<open>Mock WebSocket\<close>

text \<open>
  A socket in state CLOSED whose open timer has fired stays silent: the interval
  callback returns at its guard, and \<^verbatim>\<open>close\<close> has cleared the interval.
\<close>

lemma closed_step_silent:
  assumes "readyState s = 3" and "\<not> open_timer s"
  shows "readyState (fst (ws_step rs (s, k) i)) = 3 \<and> \<not> open_timer (fst (ws_step rs (s, k) i))
    \<and> messages (fst (ws_step rs (s, k) i)) = messages s"
  using assms
  by (cases i) (simp_all add: on_open_timer_def on_tick_def close_def Let_def messages_def)

lemma closed_run_silent:
  assumes "readyState s = 3" and "\<not> open_timer s"
  shows "messages (fst (ws_run rs inputs (s, k))) = messages s"
  using assms unfolding ws_run_def
proof (induction inputs arbitrary: s k)
  case Nil
  then show ?case by simp
next
  case (Cons i inputs)
  obtain s' k' where st: "ws_step rs (s, k) i = (s', k')" by (meson surj_pair)
  with closed_step_silent [OF Cons.prems, of rs k i]
  have "readyState s' = 3" "\<not> open_timer s'" "messages s' = messages s" by simp_all
  with Cons.IH [of s' k'] show ?case by (simp add: st)
qed

lemma close_after_open_silent:
  assumes "\<not> open_timer s"
  shows "messages (fst (ws_run rs (CloseCall code reason # inputs) (s, k))) = messages s"
proof -
  have "readyState (close code reason s) = 3" "\<not> open_timer (close code reason s)"
    "messages (close code reason s) = messages s"
    using assms by (simp_all add: close_def Let_def messages_def)
  with closed_run_silent [of "close code reason s" rs inputs k]
  show ?thesis by (simp add: ws_run_def)
qed

text \<open>
  Claim C9 at a concrete run. The client calls \<^verbatim>\<open>close()\<close> before the 300 ms open timer
  fires: no interval exists yet, so nothing is cleared and the state becomes CLOSED. The
  open timer is still pending; when it fires it sets the state back to OPEN, delivers the
  open event and the connection message, and starts the interval, whose every tick
  delivers a log message.
\<close>

theorem close_before_open_delivers_messages:
  "messages (fst (ws_run (\<lambda>_. 1 / 2) [CloseCall None None] (new_socket, 0))) = []
   \<and> received (fst (ws_run (\<lambda>_. 1 / 2) [CloseCall None None, OpenTimer 300, Tick 7800] (new_socket, 0)))
      = [Closed 1000 ''Demo closed'', Opened,
         Message (JObj [(''type'', JStr ''LOG''), (''timestamp'', JTime 300), (''level'', JStr ''INFO''),
                        (''message'', JStr (''WebSocket connected '' @ em_dash @ '' live feed active''))]),
         Message (JObj [(''type'', JStr ''LOG''), (''timestamp'', JTime 7800), (''level'', JStr ''INFO''),
                        (''message'', JStr ''Scanning market conditions...'')])]
   \<and> readyState (fst (ws_run (\<lambda>_. 1 / 2) [CloseCall None None, OpenTimer 300] (new_socket, 0))) = 1"
  by (simp add: ws_run_def new_socket_def close_def on_open_timer_def on_tick_def sendMock_def
      Let_def messages_def LOG_MESSAGES_def)

subsection \<open>Equity by symbol\<close>

lemma round2_zero: "round2 0 = 0"
  by (simp add: round2_def)

lemma equity_loop_zero:
  assumes "foldl (equity_step rs now days dr v) (curve, 0, k) ds = (curve', bal', k')"
    and "\<forall>p \<in> set curve. equity p = 0"
  shows "(\<forall>p \<in> set curve'. equity p = 0) \<and> length curve' = length curve + length ds"
  using assms
proof (induction ds arbitrary: curve k)
  case Nil
  then show ?case by simp
next
  case (Cons d ds)
  have step: "equity_step rs now days dr v (curve, 0, k) d
      = (curve @ [\<lparr>date = now - (int days - int d) * DAY_MS, equity = 0\<rparr>], 0, Suc k)"
    by (simp add: equity_step_def round2_zero)
  from Cons.prems(1) have
    "foldl (equity_step rs now days dr v)
       (curve @ [\<lparr>date = now - (int days - int d) * DAY_MS, equity = 0\<rparr>], 0, Suc k) ds
     = (curve', bal', k')"
    by (simp add: step)
  from Cons.IH [OF this] Cons.prems(2) show ?case by simp
qed

lemma generateEquityCurve_zero:
  assumes "generateEquityCurve rs k now 0 days dr v = (curve, k')"
  shows "(\<forall>p \<in> set curve. equity p = 0) \<and> length curve = days"
proof -
  obtain c b j where f: "foldl (equity_step rs now days dr v) ([], 0, k) [0..<days] = (c, b, j)"
    by (metis prod_cases3)
  with assms have "c = curve" by (simp add: generateEquityCurve_def)
  with equity_loop_zero [OF f] show ?thesis by simp
qed

lemma equity_symbols_loop_zero:
  assumes "foldl (equity_symbols_step rs now) (result, k) symbols = (result', k')"
    and "\<forall>(s, c) \<in> set result. length c = 45 \<and> (\<forall>p \<in> set c. equity p = 0)"
  shows "\<forall>(s, c) \<in> set result'. length c = 45 \<and> (\<forall>p \<in> set c. equity p = 0)"
  using assms
proof (induction symbols arbitrary: result k)
  case Nil
  then show ?case by simp
next
  case (Cons sy symbols)
  obtain curve j where g:
    "generateEquityCurve rs (Suc k) now 0 45 (rand 0.005 0.02 (rs k)) 0.015 = (curve, j)"
    by (meson surj_pair)
  have z: "length curve = 45 \<and> (\<forall>p \<in> set curve. equity p = 0)"
    using generateEquityCurve_zero [OF g] by simp
  have "set (AList.update sy curve result) \<subseteq> insert (sy, curve) (set result)"
    by (induction result) auto
  with z Cons.prems(2) have inv:
    "\<forall>(s, c) \<in> set (AList.update sy curve result). length c = 45 \<and> (\<forall>p \<in> set c. equity p = 0)"
    by blast
  have "equity_symbols_step rs now (result, k) sy = (AList.update sy curve result, j)"
    using g by (simp add: equity_symbols_step_def)
  with Cons.prems(1) have
    "foldl (equity_symbols_step rs now) (AList.update sy curve result, j) symbols = (result', k')"
    by simp
  from Cons.IH [OF this inv] show ?case .
qed

text \<open>
  Claim C10. For every symbol of the equity-by-symbol response, the curve has 45 points
  and every point has equity exactly 0, whatever the random draws are: the curve
  generator is started with balance 0 and each step only multiplies the running balance.
\<close>

theorem equity_symbols_all_zero:
  assumes "map_of (fst (generateEquitySymbols rs k now symbols)) sy = Some curve"
  shows "length curve = 45 \<and> (\<forall>p \<in> set curve. equity p = 0)"
proof -
  obtain result k' where g: "generateEquitySymbols rs k now symbols = (result, k')"
    by (meson surj_pair)
  then have f: "foldl (equity_symbols_step rs now) ([], k) symbols = (result, k')"
    by (simp add: generateEquitySymbols_def)
  have "\<forall>(s, c) \<in> set result. length c = 45 \<and> (\<forall>p \<in> set c. equity p = 0)"
    by (rule equity_symbols_loop_zero [OF f]) simp
  moreover from assms g have "(sy, curve) \<in> set result"
    by (simp add: map_of_SomeD)
  ultimately show ?thesis by blast
qed

theorem equity_symbols_all_zero_witness:
  "map_of (fst (generateEquitySymbols (\<lambda>_. 1 / 2) 0 0 [''BTC''])) ''BTC''
     = Some (fst (generateEquityCurve (\<lambda>_. 1 / 2) 1 0 0 45 (rand 0.005 0.02 (1 / 2)) 0.015))
   \<and> length (fst (generateEquityCurve (\<lambda>_. 1 / 2) 1 0 0 45 (rand 0.005 0.02 (1 / 2)) 0.015)) = 45
   \<and> list_all (\<lambda>p. equity p = 0)
         (fst (generateEquityCurve (\<lambda>_. 1 / 2) 1 0 0 45 (rand 0.005 0.02 (1 / 2)) 0.015))"
proof -
  have h: "map_of (fst (generateEquitySymbols (\<lambda>_. 1 / 2) 0 0 [''BTC''])) ''BTC''
     = Some (fst (generateEquityCurve (\<lambda>_. 1 / 2) 1 0 0 45 (rand 0.005 0.02 (1 / 2)) 0.015))"
    by (simp add: generateEquitySymbols_def equity_symbols_step_def split: prod.split)
  from equity_symbols_all_zero [OF h] h show ?thesis by (simp add: list_all_iff)
qed

text \<open>Every requested symbol is a key of the response, so the statement above is about all of them.\<close>

lemma equity_symbols_loop_keys:
  "fst ` set (fst (foldl (equity_symbols_step rs now) (result, k) symbols))
     = fst ` set result \<union> set symbols"
proof (induction symbols arbitrary: result k)
  case Nil
  then show ?case by simp
next
  case (Cons s symbols)
  obtain curve j where g:
    "generateEquityCurve rs (Suc k) now 0 45 (rand 0.005 0.02 (rs k)) 0.015 = (curve, j)"
    by (meson surj_pair)
  have st: "equity_symbols_step rs now (result, k) s = (AList.update s curve result, j)"
    using g by (simp add: equity_symbols_step_def)
  show ?case
    by (simp add: st Cons.IH dom_update [simplified dom_map_of_conv_image_fst])
qed

lemma equity_symbols_keys:
  "fst ` set (fst (generateEquitySymbols rs k now symbols)) = set symbols"
  by (simp add: generateEquitySymbols_def equity_symbols_loop_keys)

end
